theory Spec2Isabelle
  imports Complex_Main "HOL-Library.Multiset" "HOL-Library.Sublist"
begin

text \<open>
  A model of the command builder of the Basil graphical front end (asl.py): the tab
  pages that hold the options, the data order preview, and \<^verbatim>\<open>AslRun\<close>, which turns the
  options into the commands to run. Line numbers refer to asl.py.
\<close>

section \<open>Exceptions, strings and numbers\<close>
text \<open>
  The exceptions that the modelled code raises. \<^verbatim>\<open>RuntimeError\<close> carries its message;
  \<^verbatim>\<open>AttributeError\<close> carries the missing attribute; \<^verbatim>\<open>ImageFileError\<close> stands for
  whatever \<^verbatim>\<open>nib.load\<close> raises on a file that is not an image. A function that may
  raise returns \<open>error + 'a\<close>, with \<open>Inl\<close> for the raised exception.
\<close>

datatype error =
    RuntimeError string
  | ZeroDivisionError
  | TypeError
  | AttributeError string
  | ImageFileError

text \<open>
  Decimal digits of a natural number, and on top of them the conversions
  \<^verbatim>\<open>"%i" % n\<close> and \<^verbatim>\<open>"%s" % b\<close> for a bool.
\<close>

fun str_nat :: "nat \<Rightarrow> string" where
  "str_nat n =
     (if n < 10 then [''0123456789'' ! n]
      else str_nat (n div 10) @ [''0123456789'' ! (n mod 10)])"

declare str_nat.simps [simp del]

definition str_int :: "int \<Rightarrow> string" where
  "str_int i = (if i < 0 then CHR ''-'' # str_nat (nat (- i)) else str_nat (nat i))"

definition str_bool :: "bool \<Rightarrow> string" where
  "str_bool b = (if b then ''True'' else ''False'')"

text \<open>
  \<^verbatim>\<open>sep.join(xs)\<close>, \<^verbatim>\<open>s.lower()\<close> on ASCII, and \<^verbatim>\<open>'"%s"' % s\<close> (the argument between
  double quotes). \<open>bool_int\<close> is \<^verbatim>\<open>int(b)\<close>.
\<close>

fun join :: "string \<Rightarrow> string list \<Rightarrow> string" where
  "join sep [] = []"
| "join sep [x] = x"
| "join sep (x # y # ys) = x @ sep @ join sep (y # ys)"

definition lower_char :: "char \<Rightarrow> char" where
  "lower_char c =
     (case map_of (zip ''ABCDEFGHIJKLMNOPQRSTUVWXYZ'' ''abcdefghijklmnopqrstuvwxyz'') c of
        Some l \<Rightarrow> l | None \<Rightarrow> c)"

definition lower :: "string \<Rightarrow> string" where
  "lower s = map lower_char s"

definition quoted :: "string \<Rightarrow> string" where
  "quoted s = CHR 0x22 # s @ [CHR 0x22]"

definition bool_int :: "bool \<Rightarrow> int" where
  "bool_int b = (if b then 1 else 0)"

section \<open>The environment\<close>

text \<open>
  What the code reads from outside: \<^verbatim>\<open>os.path.exists\<close>, the shape of the image that
  \<^verbatim>\<open>nib.load\<close> returns (or the exception it raises), the directory of the script and
  the environment variable \<^verbatim>\<open>FSLDIR\<close> when it is set.

  The floats of the interpreter are the type parameter \<open>'f\<close>. Nothing is assumed of
  them, so a float may be any double, an infinity or a NaN, and nothing is assumed of
  their operations, which the environment holds: \<open>float_add x y\<close> is \<^verbatim>\<open>x + y\<close> on two
  floats (line 947), \<open>float_div x n\<close> is \<^verbatim>\<open>x / n\<close> for a float and an int (line 527), and
  \<open>float_fmt d x\<close> is \<^verbatim>\<open>"%.<d>f" % x\<close>, the text of a float with \<open>d\<close> decimals.
\<close>

record 'f env =
  os_path_exists :: "string \<Rightarrow> bool"
  nib_load_shape :: "string \<Rightarrow> error + int list"
  localdir :: string
  environ_FSLDIR :: "string option"
  float_add :: "'f \<Rightarrow> 'f \<Rightarrow> 'f"
  float_div :: "'f \<Rightarrow> int \<Rightarrow> 'f"
  float_fmt :: "nat \<Rightarrow> 'f \<Rightarrow> string"

text \<open>
  \<^verbatim>\<open>os.path.join(a, b)\<close> on POSIX for two arguments.
\<close>

definition os_path_join :: "string \<Rightarrow> string \<Rightarrow> string" where
  "os_path_join a b =
     (if b \<noteq> [] \<and> hd b = CHR ''/'' then b
      else if a = [] \<or> last a = CHR ''/'' then a @ b
      else a @ ''/'' @ b)"

section \<open>FslCmd\<close>

text \<open>
  Class \<^verbatim>\<open>FslCmd\<close> (asl.py, lines 38 to 85). The source keeps one string
  \<^verbatim>\<open>self.cmd\<close> and appends a space and the option on every \<^verbatim>\<open>add\<close>; the model keeps
  the program and the list of the options added so far, and \<open>FslCmd_str\<close> is the string
  (\<^verbatim>\<open>__str__\<close>). \<open>add\<close> is \<^verbatim>\<open>add(opt)\<close>, \<open>add_val\<close> is \<^verbatim>\<open>add(opt, val)\<close>;
  \<^verbatim>\<open>get_run_sequence\<close> only calls the first.
\<close>

record FslCmd =
  prog :: string
  opts :: "string list"

definition FslCmd_init :: "'f env \<Rightarrow> string \<Rightarrow> FslCmd" where
  "FslCmd_init e c =
     (let fsldir = (case environ_FSLDIR e of Some d \<Rightarrow> d | None \<Rightarrow> localdir e)
      in if os_path_exists e (os_path_join (localdir e) c)
           then \<lparr>prog = os_path_join (localdir e) c, opts = []\<rparr>
         else if os_path_exists e (os_path_join fsldir (''bin/'' @ c))
           then \<lparr>prog = os_path_join fsldir (''bin/'' @ c), opts = []\<rparr>
         else \<lparr>prog = c, opts = []\<rparr>)"

definition add :: "FslCmd \<Rightarrow> string \<Rightarrow> FslCmd" where
  "add c opt = c\<lparr>opts := opts c @ [opt]\<rparr>"

definition add_val :: "FslCmd \<Rightarrow> string \<Rightarrow> string \<Rightarrow> FslCmd" where
  "add_val c opt val = c\<lparr>opts := opts c @ [opt @ ''='' @ val]\<rparr>"

definition FslCmd_str :: "FslCmd \<Rightarrow> string" where
  "FslCmd_str c = foldl (\<lambda>s opt. s @ '' '' @ opt) (prog c) (opts c)"

section \<open>The data order preview (class AslDataPreview)\<close>

text \<open>
  The attributes of \<^verbatim>\<open>AslDataPreview\<close> (lines 1148 to 1267) that \<^verbatim>\<open>on_paint\<close> reads.
  Python integers are unbounded, so they are \<open>int\<close>; the attributes \<^verbatim>\<open>tc_pairs\<close>,
  \<^verbatim>\<open>tagfirst\<close> and \<^verbatim>\<open>order\<close> carry the prefix \<open>pv_\<close> to keep them apart from the
  methods of the same name on the input tab.
\<close>

record AslDataPreview =
  n_tis :: int
  n_repeats :: int
  pv_tc_pairs :: bool
  pv_tagfirst :: bool
  pv_order :: string

text \<open>
  The body of the inner loop of \<^verbatim>\<open>on_paint\<close> (lines 1218 to 1232): what one element
  \<open>i\<close> of \<^verbatim>\<open>temp\<close> contributes to the new \<^verbatim>\<open>seq\<close> for the letter \<open>t\<close>. A list times a
  number that is not positive is the empty list, as \<open>replicate (nat n)\<close> is; a letter
  other than t, p and r appends nothing.
\<close>

definition expand :: "AslDataPreview \<Rightarrow> char \<Rightarrow> int \<Rightarrow> int list" where
  "expand dp t i =
     (if t = CHR ''t'' then replicate (nat (n_tis dp)) i
      else if t = CHR ''p'' then
        (if \<not> pv_tc_pairs dp then [i]
         else if pv_tagfirst dp then [i, i + 1]
         else [i + 1, i])
      else if t = CHR ''r'' then i # replicate (nat (n_repeats dp - 1)) (i + 2)
      else [])"

definition expand_all :: "AslDataPreview \<Rightarrow> char \<Rightarrow> int list \<Rightarrow> int list" where
  "expand_all dp t temp = concat (map (expand dp t) temp)"

text \<open>
  The outer loop (lines 1214 to 1232): \<^verbatim>\<open>seq = [1,]\<close>, then one pass for every letter of
  \<^verbatim>\<open>self.order[::-1]\<close>. The markers are 1 (a volume, the tag of a pair), 2 (the control
  of a pair), and 3 and 4 for the repeats of 1 and 2.
\<close>

definition paint_seq :: "AslDataPreview \<Rightarrow> int list" where
  "paint_seq dp = foldl (\<lambda>seq t. expand_all dp t seq) [1] (rev (pv_order dp))"

text \<open>
  Lines 1234 to 1241: \<^verbatim>\<open>ti_sep\<close> starts at 1 and becomes the distance between the first
  two elements equal to 1, where the loop breaks.
\<close>

fun find_ti_sep :: "int list \<Rightarrow> int \<Rightarrow> int \<Rightarrow> int" where
  "find_ti_sep [] idx tistart = 1"
| "find_ti_sep (s # rest) idx tistart =
     (if s = 1 \<and> tistart < 0 then find_ti_sep rest (idx + 1) idx
      else if s = 1 then idx - tistart
      else find_ti_sep rest (idx + 1) tistart)"

text \<open>
  Lines 1246 to 1267: the drawing loop. For every element of \<^verbatim>\<open>seq\<close> the model records the
  timing index \<^verbatim>\<open>ti\<close> held while the element is drawn, paired with the marker; the colour
  position \<^verbatim>\<open>pos\<close> is a float that follows \<^verbatim>\<open>ti\<close> and is left out, as are the calls
  on the device context.
\<close>

fun draw_loop :: "AslDataPreview \<Rightarrow> int \<Rightarrow> int list \<Rightarrow> int \<Rightarrow> int \<Rightarrow> (int \<times> int) list" where
  "draw_loop dp ti_sep [] idx ti = []"
| "draw_loop dp ti_sep (s # rest) idx ti =
     (ti, s) #
     (if (idx + 1) mod ti_sep = 0
      then (if ti + 1 = n_tis dp then draw_loop dp ti_sep rest (idx + 1) 0
            else draw_loop dp ti_sep rest (idx + 1) (ti + 1))
      else draw_loop dp ti_sep rest (idx + 1) ti)"

text \<open>
  \<^verbatim>\<open>on_paint\<close> (lines 1178 to 1267) as far as the sequence is concerned. \<^verbatim>\<open>N\<close> is the
  number of volumes expected (lines 1180 and 1181); line 1243 divides the width by \<^verbatim>\<open>N\<close>,
  so with \<^verbatim>\<open>N = 0\<close> the handler raises before any element of the sequence is drawn
  (\<^verbatim>\<open>1.0/self.n_tis\<close> on line 1247 can only fail when \<^verbatim>\<open>N\<close> is 0 too). Otherwise the
  result is the list of labels of the drawing loop.
\<close>

definition on_paint :: "AslDataPreview \<Rightarrow> error + (int \<times> int) list" where
  "on_paint dp =
     (let N = n_tis dp * n_repeats dp;
          N = (if pv_tc_pairs dp then N * 2 else N);
          seq = paint_seq dp;
          ti_sep = find_ti_sep seq 0 (- 1)
      in if N = 0 then Inl ZeroDivisionError
         else Inr (draw_loop dp ti_sep seq 0 0))"

section \<open>The tab pages\<close>

text \<open>
  The state of the widgets of each tab page, under the names the widgets have in the
  source. A \<^verbatim>\<open>wx.Choice\<close> is its selected index, a checkbox is a bool, a file picker is
  its path, a number chooser is the float it holds; the check box of an optional picker
  \<^verbatim>\<open>x\<close> is \<open>x_checkbox\<close>. A \<^verbatim>\<open>NumberList\<close> is the list of its cells after \<^verbatim>\<open>float()\<close>:
  the float of the cell, or \<open>None\<close> for a cell on which \<^verbatim>\<open>float()\<close> raises
  \<^verbatim>\<open>ValueError\<close>.
\<close>

record 'f AslInputOptions =
  data_picker :: string
  ntis_int :: int
  tc_ch_checkbox :: bool
  tc_ch :: int
  labelling_ch :: int
  bolus_dur_ch :: int
  bolus_dur_num :: 'f
  bolus_dur_list :: "'f option list"
  ti_list :: "'f option list"
  readout_ch :: int
  time_per_slice_num :: 'f
  multiband_cb :: bool
  slices_per_band_spin :: int
  fsl_anat_picker_checkbox :: bool
  fsl_anat_picker :: string
  struc_image_picker_checkbox :: bool
  struc_image_picker :: string
  struc_image_ch :: int
  struc_image_brain_picker :: string

record 'f AslAnalysis =
  transform_cb :: bool
  transform_ch :: int
  transform_picker :: string
  outdir_picker :: string
  mask_picker_checkbox :: bool
  mask_picker :: string
  wp_cb :: bool
  bat_num :: 'f
  t1_num :: 'f
  t1b_num :: 'f
  ie_num :: 'f
  spatial_cb :: bool
  infer_t1_cb :: bool
  macro_cb :: bool
  fixbolus_cb :: bool
  pv_cb :: bool
  mc_cb :: bool

record 'f AslDistCorr =
  distcorr_cb :: bool
  distcorr_ch :: int
  fmap_picker :: string
  fmap_mag_picker :: string
  fmap_mag_be_cb :: bool
  echosp_num :: 'f
  pedir_ch :: string
  cblip_cb :: bool

record 'f AslCalibration =
  calib_cb :: bool
  calib_image_picker :: string
  m0_type_ch :: int
  seq_tr_num :: 'f
  calib_gain_num :: 'f
  calib_mode_ch :: int
  ref_tissue_type_ch :: int
  ref_tissue_mask_picker_checkbox :: bool
  ref_tissue_mask_picker :: string
  seq_te_num :: 'f
  blood_t2_num :: 'f
  coil_image_picker_checkbox :: bool
  coil_image_picker :: string
  ref_t1_num :: 'f
  ref_t2_num :: 'f

text \<open>
  The objects \<^verbatim>\<open>AslRun\<close> reaches through \<^verbatim>\<open>self.input\<close>, \<^verbatim>\<open>self.analysis\<close>,
  \<^verbatim>\<open>self.distcorr\<close>, \<^verbatim>\<open>self.calibration\<close> and \<^verbatim>\<open>self.preview.order_preview\<close>, and the
  label \<^verbatim>\<open>self.input.nrepeats_label\<close> that \<^verbatim>\<open>get_run_sequence\<close> writes.
\<close>

record 'f gui =
  input :: "'f AslInputOptions"
  analysis :: "'f AslAnalysis"
  distcorr_page :: "'f AslDistCorr"
  calibration :: "'f AslCalibration"
  order_preview :: AslDataPreview
  nrepeats_label :: string

section \<open>Methods of the tab pages\<close>

text \<open>
  Sequencing of two steps of which the first may raise.
\<close>

definition then_do :: "error + 'a \<Rightarrow> ('a \<Rightarrow> error + 'b) \<Rightarrow> error + 'b" where
  "then_do m f = (case m of Inl x \<Rightarrow> Inl x | Inr v \<Rightarrow> f v)"

text \<open>
  \<^verbatim>\<open>NumberList.GetValues\<close> (lines 1121 to 1125).
\<close>

definition GetValues :: "'f option list \<Rightarrow> error + 'f list" where
  "GetValues cells =
     (if None \<in> set cells then Inl (RuntimeError ''Non-numeric values in number list'')
      else Inr (map the cells))"

text \<open>
  The methods of \<^verbatim>\<open>AslInputOptions\<close> (lines 932 to 964). In \<^verbatim>\<open>tis\<close> the list
  \<^verbatim>\<open>bolus_durs *= self.ntis()\<close> is the list repeated \<^verbatim>\<open>ntis\<close> times, \<^verbatim>\<open>zip\<close> stops at
  the shorter list, and \<^verbatim>\<open>pld+bd\<close> is the float addition of the environment.
  \<open>falsy\<close> is Python's \<^verbatim>\<open>not v\<close> for a value that is \<^verbatim>\<open>None\<close> or a
  string.
\<close>

definition data :: "'f AslInputOptions \<Rightarrow> string" where
  "data i = data_picker i"

definition ntis :: "'f AslInputOptions \<Rightarrow> int" where
  "ntis i = ntis_int i"

definition data_order :: "'f gui \<Rightarrow> string \<times> bool" where
  "data_order g = (pv_order (order_preview g), pv_tagfirst (order_preview g))"

definition tc_pairs :: "'f AslInputOptions \<Rightarrow> bool" where
  "tc_pairs i = tc_ch_checkbox i"

definition labelling :: "'f AslInputOptions \<Rightarrow> int" where
  "labelling i = labelling_ch i"

definition bolus_dur_type :: "'f AslInputOptions \<Rightarrow> int" where
  "bolus_dur_type i = bolus_dur_ch i"

definition bolus_dur :: "'f AslInputOptions \<Rightarrow> error + 'f list" where
  "bolus_dur i =
     (if bolus_dur_type i = 0 then Inr [bolus_dur_num i]
      else GetValues (bolus_dur_list i))"

definition tis :: "'f env \<Rightarrow> 'f AslInputOptions \<Rightarrow> error + 'f list" where
  "tis e i =
     then_do (GetValues (ti_list i)) (\<lambda>tis.
       if labelling i = 1 then
         then_do (bolus_dur i) (\<lambda>bolus_durs.
           let bolus_durs = (if length bolus_durs = 1
                             then concat (replicate (nat (ntis i)) bolus_durs)
                             else bolus_durs)
           in Inr (map (\<lambda>(pld, bd). float_add e pld bd) (zip tis bolus_durs)))
       else Inr tis)"

definition readout :: "'f AslInputOptions \<Rightarrow> int" where
  "readout i = readout_ch i"

definition time_per_slice :: "'f AslInputOptions \<Rightarrow> 'f" where
  "time_per_slice i = time_per_slice_num i"

definition multiband :: "'f AslInputOptions \<Rightarrow> bool" where
  "multiband i = multiband_cb i"

definition slices_per_band :: "'f AslInputOptions \<Rightarrow> int" where
  "slices_per_band i = slices_per_band_spin i"

definition fsl_anat :: "'f AslInputOptions \<Rightarrow> string option" where
  "fsl_anat i = (if fsl_anat_picker_checkbox i then Some (fsl_anat_picker i) else None)"

definition falsy :: "string option \<Rightarrow> bool" where
  "falsy v = (case v of None \<Rightarrow> True | Some s \<Rightarrow> s = [])"

definition struc_image_bet :: "'f AslInputOptions \<Rightarrow> int" where
  "struc_image_bet i = struc_image_ch i"

definition struc_image :: "'f AslInputOptions \<Rightarrow> string option" where
  "struc_image i =
     (if struc_image_picker_checkbox i \<and> falsy (fsl_anat i) then Some (struc_image_picker i)
      else None)"

definition struc_image_brain :: "'f AslInputOptions \<Rightarrow> string option" where
  "struc_image_brain i =
     (if struc_image_picker_checkbox i \<and> falsy (fsl_anat i) \<and> struc_image_bet i = 0
      then Some (struc_image_brain_picker i)
      else None)"

text \<open>
  The methods of \<^verbatim>\<open>AslAnalysis\<close> (lines 790 to 807).
\<close>

definition transform :: "'f AslAnalysis \<Rightarrow> bool" where
  "transform a = transform_cb a"

definition transform_type :: "'f AslAnalysis \<Rightarrow> int" where
  "transform_type a = transform_ch a"

definition transform_file :: "'f AslAnalysis \<Rightarrow> string" where
  "transform_file a = transform_picker a"

definition outdir :: "'f AslAnalysis \<Rightarrow> string" where
  "outdir a = outdir_picker a"

definition mask :: "'f AslAnalysis \<Rightarrow> string option" where
  "mask a = (if mask_picker_checkbox a then Some (mask_picker a) else None)"

definition wp :: "'f AslAnalysis \<Rightarrow> bool" where
  "wp a = wp_cb a"

definition bat :: "'f AslAnalysis \<Rightarrow> 'f" where
  "bat a = bat_num a"

definition t1 :: "'f AslAnalysis \<Rightarrow> 'f" where
  "t1 a = t1_num a"

definition t1b :: "'f AslAnalysis \<Rightarrow> 'f" where
  "t1b a = t1b_num a"

definition ie :: "'f AslAnalysis \<Rightarrow> 'f" where
  "ie a = ie_num a"

definition spatial :: "'f AslAnalysis \<Rightarrow> bool" where
  "spatial a = spatial_cb a"

definition infer_t1 :: "'f AslAnalysis \<Rightarrow> bool" where
  "infer_t1 a = infer_t1_cb a"

definition macro :: "'f AslAnalysis \<Rightarrow> bool" where
  "macro a = macro_cb a"

definition fixbolus :: "'f AslAnalysis \<Rightarrow> bool" where
  "fixbolus a = fixbolus_cb a"

definition pv :: "'f AslAnalysis \<Rightarrow> bool" where
  "pv a = pv_cb a"

definition mc :: "'f AslAnalysis \<Rightarrow> bool" where
  "mc a = mc_cb a"

text \<open>
  The methods of \<^verbatim>\<open>AslDistCorr\<close> (lines 704 to 711).
\<close>

definition distcorr :: "'f AslDistCorr \<Rightarrow> bool" where
  "distcorr d = distcorr_cb d"

definition distcorr_type :: "'f AslDistCorr \<Rightarrow> int" where
  "distcorr_type d = distcorr_ch d"

definition fmap :: "'f AslDistCorr \<Rightarrow> string" where
  "fmap d = fmap_picker d"

definition fmap_mag :: "'f AslDistCorr \<Rightarrow> string" where
  "fmap_mag d = fmap_mag_picker d"

definition fmap_mag_be :: "'f AslDistCorr \<Rightarrow> bool" where
  "fmap_mag_be d = fmap_mag_be_cb d"

definition echosp :: "'f AslDistCorr \<Rightarrow> 'f" where
  "echosp d = echosp_num d"

definition pedir :: "'f AslDistCorr \<Rightarrow> string" where
  "pedir d = pedir_ch d"

definition cblip :: "'f AslDistCorr \<Rightarrow> bool" where
  "cblip d = cblip_cb d"

text \<open>
  The methods of \<^verbatim>\<open>AslCalibration\<close> (lines 610 to 629). \<^verbatim>\<open>GetString\<close> of an index
  outside the choices is the empty string.
\<close>

definition calib :: "'f AslCalibration \<Rightarrow> bool" where
  "calib c = calib_cb c"

definition m0_type :: "'f AslCalibration \<Rightarrow> int" where
  "m0_type c = m0_type_ch c"

definition seq_tr :: "'f AslCalibration \<Rightarrow> 'f" where
  "seq_tr c = seq_tr_num c"

definition seq_te :: "'f AslCalibration \<Rightarrow> 'f" where
  "seq_te c = seq_te_num c"

definition calib_image :: "'f AslCalibration \<Rightarrow> string" where
  "calib_image c = calib_image_picker c"

definition calib_gain :: "'f AslCalibration \<Rightarrow> 'f" where
  "calib_gain c = calib_gain_num c"

definition calib_mode :: "'f AslCalibration \<Rightarrow> int" where
  "calib_mode c = calib_mode_ch c"

definition ref_tissue_type :: "'f AslCalibration \<Rightarrow> int" where
  "ref_tissue_type c = ref_tissue_type_ch c"

definition ref_tissue_type_name :: "'f AslCalibration \<Rightarrow> string" where
  "ref_tissue_type_name c =
     (let names = [''CSF'', ''WM'', ''GM'', ''None'']; n = ref_tissue_type c
      in if 0 \<le> n \<and> n < 4 then names ! nat n else [])"

definition ref_tissue_mask :: "'f AslCalibration \<Rightarrow> string option" where
  "ref_tissue_mask c =
     (if ref_tissue_mask_picker_checkbox c then Some (ref_tissue_mask_picker c) else None)"

definition ref_t1 :: "'f AslCalibration \<Rightarrow> 'f" where
  "ref_t1 c = ref_t1_num c"

definition ref_t2 :: "'f AslCalibration \<Rightarrow> 'f" where
  "ref_t2 c = ref_t2_num c"

definition blood_t2 :: "'f AslCalibration \<Rightarrow> 'f" where
  "blood_t2 c = blood_t2_num c"

definition coil_image :: "'f AslCalibration \<Rightarrow> string option" where
  "coil_image c =
     (if coil_image_picker_checkbox c then Some (coil_image_picker c) else None)"

text \<open>
  \<^verbatim>\<open>AslCalibration.update\<close> (lines 650 to 668): under white paper mode the calibration
  mode is set to 1 (voxelwise). The other statements enable and disable widgets, which
  changes no value; the method ends in \<^verbatim>\<open>TabPage.update\<close>, which runs
  \<^verbatim>\<open>get_run_sequence\<close> on the state returned here.
\<close>

definition AslCalibration_update :: "'f gui \<Rightarrow> 'f gui" where
  "AslCalibration_update g =
     (if wp (analysis g) then g\<lparr>calibration := (calibration g)\<lparr>calib_mode_ch := 1\<rparr>\<rparr> else g)"

section \<open>AslRun\<close>

text \<open>
  The dictionary \<^verbatim>\<open>AslRun.order_opts\<close> (lines 334 to 343), as the list of its items.
\<close>

definition order_opts :: "(string \<times> string) list" where
  "order_opts =
     [(''trp'', ''--ibf=tis --iaf=diff''),
      (''trp,tc'', ''--ibf=tis --iaf=tcb''),
      (''trp,ct'', ''--ibf=tis --iaf=ctb''),
      (''rtp'', ''--ibf=rpt --iaf=diff''),
      (''rtp,tc'', ''--rpt --iaf=tcb''),
      (''rtp,ct'', ''--ibf=rpt --iaf=ctb''),
      (''ptr,tc'', ''--ibf=tis --iaf=tc''),
      (''ptr,ct'', ''--ibf=tis --iaf=ct''),
      (''prt,tc'', ''--ibf=rpt --iaf=tc''),
      (''prt,ct'', ''--ibf=rpt --iaf=ct'')]"

text \<open>
  \<^verbatim>\<open>check_exists\<close> (lines 387 to 389).
\<close>

definition check_exists :: "'f env \<Rightarrow> string \<Rightarrow> string \<Rightarrow> error + unit" where
  "check_exists e label file =
     (if \<not> os_path_exists e file
      then Inl (RuntimeError (label @ '' - no such file or directory''))
      else Inr ())"

text \<open>
  \<^verbatim>\<open>get_data_order_options\<close> (lines 413 to 426). \<open>order_key\<close> is the value of
  \<^verbatim>\<open>order\<close> at the lookup: the order string of the preview, with \<^verbatim>\<open>,tc\<close> or \<^verbatim>\<open>,ct\<close>
  appended under tag-control pairs.
\<close>

definition order_key :: "'f gui \<Rightarrow> string" where
  "order_key g =
     (let (order, tagfirst) = data_order g
      in if tc_pairs (input g) then (if tagfirst then order @ '',tc'' else order @ '',ct'')
         else order)"

definition get_data_order_options :: "'f gui \<Rightarrow> error + string \<times> string" where
  "get_data_order_options g =
     (let order = order_key g;
          diff_opt = (if tc_pairs (input g) then ''--diff'' else [])
      in case map_of order_opts order of
           None \<Rightarrow> Inl (RuntimeError ''This data ordering is not supported by ASL_FILE'')
         | Some v \<Rightarrow> Inr (v, diff_opt))"

text \<open>
  The command that \<^verbatim>\<open>get_preview_data\<close> builds (lines 399 to 403), for the temporary
  directory \<open>tempdir\<close>.
\<close>

definition get_preview_cmd :: "'f env \<Rightarrow> 'f gui \<Rightarrow> string \<Rightarrow> error + FslCmd" where
  "get_preview_cmd e g tempdir =
     (let meanfile = tempdir @ ''/mean.nii.gz'';
          cmd = FslCmd_init e ''asl_file'';
          cmd = add cmd (''--data='' @ quoted (data (input g)));
          cmd = add cmd (''--ntis='' @ str_int (ntis (input g)));
          cmd = add cmd (''--mean='' @ quoted meanfile)
      in then_do (get_data_order_options g) (\<lambda>(order_opt, diff_opt). Inr (add cmd (join '' '' [order_opt, diff_opt]))))"

text \<open>
  \<^verbatim>\<open>get_run_sequence\<close> (lines 428 to 578), in the order of the source. First the checks
  of the input data (lines 435 to 453), which write the label of the number of repeats
  and the attributes of the order preview. \<^verbatim>\<open>%\<close> and \<^verbatim>\<open>/\<close> on Python 2 integers are
  floor modulus and floor division, as \<open>mod\<close> and \<open>div\<close> on \<open>int\<close> are; a zero divisor
  raises.
\<close>

definition check_input_data :: "'f env \<Rightarrow> 'f gui \<Rightarrow> (error + unit) \<times> 'f gui" where
  "check_input_data e g =
     (case check_exists e ''Input data'' (data (input g)) of
        Inl x \<Rightarrow> (Inl x, g)
      | Inr _ \<Rightarrow>
     (case nib_load_shape e (data (input g)) of
        Inl x \<Rightarrow> (Inl x, g)
      | Inr shape \<Rightarrow>
          if length shape \<noteq> 4 then (Inl (RuntimeError ''Input data is not a 4D image''), g)
          else
            let nvols = shape ! 3;
                N = ntis (input g);
                N = (if tc_pairs (input g) then N * 2 else N)
            in if N = 0 then (Inl ZeroDivisionError, g)
               else if nvols mod N \<noteq> 0 then
                 (Inl (RuntimeError
                    (''Input data contains '' @ str_int (shape ! 3)
                     @ '' volumes - not consistent with '' @ str_int (ntis (input g))
                     @ '' TIs and TC pairs='' @ str_bool (tc_pairs (input g)))),
                  g\<lparr>nrepeats_label := ''<Unknown>''\<rparr>)
               else
                 (Inr (),
                  g\<lparr>nrepeats_label := str_int (nvols div N),
                    order_preview := (order_preview g)
                      \<lparr>n_tis := ntis (input g),
                       n_repeats := nvols div N,
                       pv_tc_pairs := tc_pairs (input g),
                       pv_tagfirst := (tc_ch (input g) = 0)\<rparr>\<rparr>)))"

text \<open>
  Lines 455 to 458.
\<close>

definition check_outdir :: "'f gui \<Rightarrow> error + string" where
  "check_outdir g =
     (let outdir = outdir (analysis g)
      in if outdir = [] then Inl (RuntimeError ''Output directory not specified'')
         else Inr outdir)"

text \<open>
  Lines 460 to 484: the command \<^verbatim>\<open>oxford_asl\<close> and its first options.
\<close>

definition main_options :: "'f env \<Rightarrow> 'f gui \<Rightarrow> string \<Rightarrow> error + FslCmd" where
  "main_options e g out =
     (let cmd = FslCmd_init e ''oxford_asl'';
          cmd = add cmd ('' -i '' @ quoted (data (input g)));
          cmd = add cmd (''-o '' @ quoted out)
      in then_do (get_data_order_options g) (\<lambda>order_options.
         let cmd = add cmd (fst order_options)
         in then_do (tis e (input g)) (\<lambda>tis_values.
         let cmd = add cmd (''--tis '' @ join '','' (map (float_fmt e 2) tis_values))
         in then_do (bolus_dur (input g)) (\<lambda>bolus_durs.
         let cmd = add cmd (''--bolus '' @ join '','' (map (float_fmt e 2) bolus_durs));
             cmd = (if wp (analysis g) then add cmd ''--wp''
                    else add (add cmd (''--t1 '' @ float_fmt e 2 (t1 (analysis g))))
                             (''--bat '' @ float_fmt e 2 (bat (analysis g))));
             cmd = add cmd (''--t1b '' @ float_fmt e 2 (t1b (analysis g)));
             cmd = add cmd (''--alpha '' @ float_fmt e 2 (ie (analysis g)));
             cmd = add cmd (''--spatial='' @ str_int (bool_int (spatial (analysis g))));
             cmd = add cmd (''--fixbolus='' @ str_int (bool_int (fixbolus (analysis g))));
             cmd = add cmd (''--mc='' @ str_int (bool_int (mc (analysis g))));
             cmd = (if infer_t1 (analysis g) then add cmd ''--infert1'' else cmd);
             cmd = (if pv (analysis g) then add cmd ''--pvcorr'' else cmd);
             cmd = (if \<not> macro (analysis g) then add cmd ''--artoff'' else cmd)
         in then_do
              (case mask (analysis g) of
                 Some m \<Rightarrow> then_do (check_exists e ''Analysis mask'' m)
                             (\<lambda>_. Inr (add cmd (''-m '' @ quoted m)))
               | None \<Rightarrow> Inr cmd) (\<lambda>cmd.
         let cmd = (if labelling (input g) = 1 then add cmd ''--casl'' else cmd)
         in Inr cmd)))))"

text \<open>
  Lines 485 to 493.
\<close>

definition transform_options :: "'f env \<Rightarrow> 'f gui \<Rightarrow> FslCmd \<Rightarrow> error + FslCmd" where
  "transform_options e g cmd =
     (if transform (analysis g) then
        (if transform_type (analysis g) = 0 then
           then_do (check_exists e ''Transformation matrix'' (transform_file (analysis g)))
             (\<lambda>_. Inr (add cmd (''--asl2struc '' @ quoted (transform_file (analysis g)))))
         else if transform_type (analysis g) = 1 then
           then_do (check_exists e ''Warp image'' (transform_file (analysis g)))
             (\<lambda>_. Inr (add cmd (''--regfrom '' @ quoted (transform_file (analysis g)))))
         else Inr cmd)
      else Inr cmd)"

text \<open>
  Lines 495 to 523. \<^verbatim>\<open>struc_image_brain()\<close> is \<^verbatim>\<open>None\<close> when the brain extraction choice
  is neither 0 nor 1; \<^verbatim>\<open>os.path.exists(None)\<close> raises \<^verbatim>\<open>TypeError\<close>.
\<close>

definition structural_image ::
  "'f env \<Rightarrow> 'f gui \<Rightarrow> string \<Rightarrow> FslCmd list \<Rightarrow> FslCmd \<Rightarrow> error + FslCmd list \<times> FslCmd" where
  "structural_image e g out run cmd =
     (let fsl_anat_dir = fsl_anat (input g);
          struc_image = struc_image (input g)
      in case fsl_anat_dir of
           Some d \<Rightarrow>
             then_do (check_exists e ''FSL_ANAT'' d)
               (\<lambda>_. Inr (run, add cmd (''--fslanat='' @ quoted d)))
         | None \<Rightarrow>
          (case struc_image of
             Some s \<Rightarrow>
               then_do (check_exists e ''Structural image'' s) (\<lambda>_.
                 let cp = FslCmd_init e ''imcp'';
                     cp = add cp (quoted s);
                     cp = add cp (quoted (out @ ''/structural_head''));
                     run = run @ [cp]
                 in then_do
                      (if struc_image_bet (input g) = 1 then
                         let bet = FslCmd_init e ''bet'';
                             bet = add bet (quoted s);
                             bet = add bet (quoted (out @ ''/structural_brain''))
                         in Inr (run @ [bet])
                       else
                         (case struc_image_brain (input g) of
                            None \<Rightarrow> Inl TypeError
                          | Some b \<Rightarrow>
                              then_do (check_exists e ''Structural brain image'' b) (\<lambda>_.
                                let cp = FslCmd_init e ''imcp'';
                                    cp = add cp (quoted b);
                                    cp = add cp (quoted (out @ ''/structural_brain''))
                                in Inr (run @ [cp])))) (\<lambda>run.
                 let cmd = add cmd (''--s '' @ quoted (out @ ''/structural_head''));
                     cmd = add cmd (''--sbrain '' @ quoted (out @ ''/structural_brain''))
                 in Inr (run, cmd)))
           | None \<Rightarrow> Inr (run, cmd)))"

text \<open>
  Lines 525 to 529.
\<close>

definition readout_options :: "'f env \<Rightarrow> 'f gui \<Rightarrow> FslCmd \<Rightarrow> FslCmd" where
  "readout_options e g cmd =
     (if readout (input g) = 1 then
        let cmd = add cmd (''--slicedt ''
                           @ float_fmt e 5 (float_div e (time_per_slice (input g)) 1000))
        in if multiband (input g)
           then add cmd (''--sliceband '' @ str_int (slices_per_band (input g)))
           else cmd
      else cmd)"

text \<open>
  Lines 531 to 545. The call \<^verbatim>\<open>self.distcorr.fmap_be()\<close> on line 538 raises
  \<^verbatim>\<open>AttributeError\<close>: the class has \<^verbatim>\<open>fmap_mag_be\<close> and no \<^verbatim>\<open>fmap_be\<close>.
\<close>

definition distcorr_options :: "'f env \<Rightarrow> 'f gui \<Rightarrow> FslCmd \<Rightarrow> error + FslCmd" where
  "distcorr_options e g cmd =
     (let d = distcorr_page g
      in if distcorr d then
           then_do
             (if distcorr_type d = 0 then
                then_do (check_exists e ''Fieldmap image'' (fmap d)) (\<lambda>_.
                  let cmd = add cmd (''--fmap='' @ quoted (fmap d))
                  in then_do (check_exists e ''Fieldmap magnitude image'' (fmap_mag d))
                       (\<lambda>_. Inl (AttributeError ''fmap_be'')))
              else Inr (if cblip d then add cmd ''--cblip'' else cmd)) (\<lambda>cmd.
           let cmd = add cmd (''--echospacing='' @ float_fmt e 5 (echosp d));
               cmd = add cmd (''--pedir='' @ pedir d)
           in Inr cmd)
         else Inr cmd)"

text \<open>
  Lines 547 to 575.
\<close>

definition calibration_options :: "'f env \<Rightarrow> 'f gui \<Rightarrow> FslCmd \<Rightarrow> error + FslCmd" where
  "calibration_options e g cmd =
     (let c = calibration g
      in if calib c then
           then_do (check_exists e ''Calibration image'' (calib_image c)) (\<lambda>_.
           let cmd = add cmd (''-c '' @ quoted (calib_image c))
           in then_do
                (if m0_type c = 0 then Inr (add cmd (''--tr '' @ float_fmt e 2 (seq_tr c)))
                 else Inl (RuntimeError ''Saturation recovery not supported by oxford_asl''))
                (\<lambda>cmd.
           let cmd = add cmd (''--cgain '' @ float_fmt e 2 (calib_gain c))
           in if calib_mode c = 0 then
                let cmd = add cmd ''--cmethod single'';
                    cmd = add cmd (''--tissref '' @ lower (ref_tissue_type_name c));
                    cmd = add cmd (''--te '' @ float_fmt e 2 (seq_te c));
                    cmd = add cmd (''--t1csf '' @ float_fmt e 2 (ref_t1 c));
                    cmd = add cmd (''--t2csf '' @ float_fmt e 2 (ref_t2 c));
                    cmd = add cmd (''--t2bl '' @ float_fmt e 2 (blood_t2 c))
                in then_do
                     (case ref_tissue_mask c of
                        Some m \<Rightarrow>
                          then_do (check_exists e ''Calibration reference tissue mask'' m)
                            (\<lambda>_. Inr (add cmd (''--csf '' @ quoted m)))
                      | None \<Rightarrow> Inr cmd) (\<lambda>cmd.
                     (case coil_image c of
                        Some m \<Rightarrow>
                          then_do (check_exists e ''Coil sensitivity reference image'' m)
                            (\<lambda>_. Inr (add cmd (''--cref '' @ quoted m)))
                      | None \<Rightarrow> Inr cmd))
              else Inr (add cmd ''--cmethod voxel'')))
         else Inr cmd)"

text \<open>
  The stages in sequence, and \<^verbatim>\<open>run.append(cmd)\<close> at the end (line 577).
\<close>

definition build_run :: "'f env \<Rightarrow> 'f gui \<Rightarrow> error + FslCmd list" where
  "build_run e g =
     then_do (check_outdir g) (\<lambda>out.
     then_do (main_options e g out) (\<lambda>cmd.
     then_do (transform_options e g cmd) (\<lambda>cmd.
     then_do (structural_image e g out [] cmd) (\<lambda>(run, cmd).
     let cmd = readout_options e g cmd
     in then_do (distcorr_options e g cmd) (\<lambda>cmd.
     then_do (calibration_options e g cmd) (\<lambda>cmd.
     Inr (run @ [cmd])))))))"

definition get_run_sequence :: "'f env \<Rightarrow> 'f gui \<Rightarrow> (error + FslCmd list) \<times> 'f gui" where
  "get_run_sequence e g =
     (case check_input_data e g of
        (Inl x, g') \<Rightarrow> (Inl x, g')
      | (Inr _, g') \<Rightarrow> (build_run e g', g'))"

section \<open>The options of a successful run, stage by stage\<close>

text \<open>
  What each stage of \<^verbatim>\<open>get_run_sequence\<close> appends to the main command when it does not
  raise. These lists are compared with the stages below; the claims are then read off
  the lists.
\<close>

definition main_flags ::
  "'f env \<Rightarrow> 'f gui \<Rightarrow> string \<Rightarrow> string \<Rightarrow> 'f list \<Rightarrow> 'f list \<Rightarrow> string list" where
  "main_flags e g out v ts bs =
     [ '' -i '' @ quoted (data (input g)),
       ''-o '' @ quoted out,
       v,
       ''--tis '' @ join '','' (map (float_fmt e 2) ts),
       ''--bolus '' @ join '','' (map (float_fmt e 2) bs) ]
     @ (if wp (analysis g) then [''--wp'']
        else [''--t1 '' @ float_fmt e 2 (t1 (analysis g)),
              ''--bat '' @ float_fmt e 2 (bat (analysis g))])
     @ [ ''--t1b '' @ float_fmt e 2 (t1b (analysis g)),
         ''--alpha '' @ float_fmt e 2 (ie (analysis g)),
         ''--spatial='' @ str_int (bool_int (spatial (analysis g))),
         ''--fixbolus='' @ str_int (bool_int (fixbolus (analysis g))),
         ''--mc='' @ str_int (bool_int (mc (analysis g))) ]
     @ (if infer_t1 (analysis g) then [''--infert1''] else [])
     @ (if pv (analysis g) then [''--pvcorr''] else [])
     @ (if \<not> macro (analysis g) then [''--artoff''] else [])
     @ (case mask (analysis g) of Some m \<Rightarrow> [''-m '' @ quoted m] | None \<Rightarrow> [])
     @ (if labelling (input g) = 1 then [''--casl''] else [])"

definition transform_flags :: "'f gui \<Rightarrow> string list" where
  "transform_flags g =
     (if transform (analysis g) \<and> transform_type (analysis g) = 0
        then [''--asl2struc '' @ quoted (transform_file (analysis g))]
      else if transform (analysis g) \<and> transform_type (analysis g) = 1
        then [''--regfrom '' @ quoted (transform_file (analysis g))]
      else [])"

definition structural_flags :: "'f gui \<Rightarrow> string \<Rightarrow> string list" where
  "structural_flags g out =
     (case fsl_anat (input g) of
        Some d \<Rightarrow> [''--fslanat='' @ quoted d]
      | None \<Rightarrow>
         (case struc_image (input g) of
            Some s \<Rightarrow> [''--s '' @ quoted (out @ ''/structural_head''),
                       ''--sbrain '' @ quoted (out @ ''/structural_brain'')]
          | None \<Rightarrow> []))"

definition structural_cmds :: "'f env \<Rightarrow> 'f gui \<Rightarrow> string \<Rightarrow> FslCmd list" where
  "structural_cmds e g out =
     (case fsl_anat (input g) of
        Some d \<Rightarrow> []
      | None \<Rightarrow>
         (case struc_image (input g) of
            Some s \<Rightarrow>
              [ add (add (FslCmd_init e ''imcp'') (quoted s)) (quoted (out @ ''/structural_head'')),
                (if struc_image_bet (input g) = 1
                 then add (add (FslCmd_init e ''bet'') (quoted s))
                          (quoted (out @ ''/structural_brain''))
                 else add (add (FslCmd_init e ''imcp'')
                               (quoted (struc_image_brain_picker (input g))))
                          (quoted (out @ ''/structural_brain''))) ]
          | None \<Rightarrow> []))"

definition readout_flags :: "'f env \<Rightarrow> 'f gui \<Rightarrow> string list" where
  "readout_flags e g =
     (if readout (input g) = 1
      then [''--slicedt ''
              @ float_fmt e 5 (float_div e (time_per_slice (input g)) 1000)]
           @ (if multiband (input g)
              then [''--sliceband '' @ str_int (slices_per_band (input g))] else [])
      else [])"

definition distcorr_flags :: "'f env \<Rightarrow> 'f gui \<Rightarrow> string list" where
  "distcorr_flags e g =
     (if distcorr (distcorr_page g)
      then (if cblip (distcorr_page g) then [''--cblip''] else [])
           @ [ ''--echospacing='' @ float_fmt e 5 (echosp (distcorr_page g)),
               ''--pedir='' @ pedir (distcorr_page g) ]
      else [])"

definition calibration_flags :: "'f env \<Rightarrow> 'f gui \<Rightarrow> string list" where
  "calibration_flags e g =
     (let c = calibration g
      in if calib c
         then [ ''-c '' @ quoted (calib_image c),
                ''--tr '' @ float_fmt e 2 (seq_tr c),
                ''--cgain '' @ float_fmt e 2 (calib_gain c) ]
              @ (if calib_mode c = 0
                 then [ ''--cmethod single'',
                        ''--tissref '' @ lower (ref_tissue_type_name c),
                        ''--te '' @ float_fmt e 2 (seq_te c),
                        ''--t1csf '' @ float_fmt e 2 (ref_t1 c),
                        ''--t2csf '' @ float_fmt e 2 (ref_t2 c),
                        ''--t2bl '' @ float_fmt e 2 (blood_t2 c) ]
                      @ (case ref_tissue_mask c of
                           Some m \<Rightarrow> [''--csf '' @ quoted m] | None \<Rightarrow> [])
                      @ (case coil_image c of
                           Some m \<Rightarrow> [''--cref '' @ quoted m] | None \<Rightarrow> [])
                 else [''--cmethod voxel''])
         else [])"

text \<open>
  The checks that \<^verbatim>\<open>get_run_sequence\<close> makes on the way: the files of every enabled
  feature exist, the field map branch is not taken and the M0 type is not saturation
  recovery.
\<close>

definition mask_ok :: "'f env \<Rightarrow> 'f gui \<Rightarrow> bool" where
  "mask_ok e g = (case mask (analysis g) of Some m \<Rightarrow> os_path_exists e m | None \<Rightarrow> True)"

definition transform_ok :: "'f env \<Rightarrow> 'f gui \<Rightarrow> bool" where
  "transform_ok e g =
     (if transform (analysis g)
         \<and> (transform_type (analysis g) = 0 \<or> transform_type (analysis g) = 1)
      then os_path_exists e (transform_file (analysis g)) else True)"

definition structural_ok :: "'f env \<Rightarrow> 'f gui \<Rightarrow> bool" where
  "structural_ok e g =
     (case fsl_anat (input g) of
        Some d \<Rightarrow> os_path_exists e d
      | None \<Rightarrow>
         (case struc_image (input g) of
            Some s \<Rightarrow>
              os_path_exists e s
              \<and> (if struc_image_bet (input g) = 1 then True
                 else struc_image_bet (input g) = 0
                      \<and> os_path_exists e (struc_image_brain_picker (input g)))
          | None \<Rightarrow> True))"

definition distcorr_ok :: "'f gui \<Rightarrow> bool" where
  "distcorr_ok g =
     (if distcorr (distcorr_page g) then distcorr_type (distcorr_page g) \<noteq> 0 else True)"

definition calibration_ok :: "'f env \<Rightarrow> 'f gui \<Rightarrow> bool" where
  "calibration_ok e g =
     (let c = calibration g
      in if calib c
         then os_path_exists e (calib_image c) \<and> m0_type c = 0
              \<and> (if calib_mode c = 0
                  then (case ref_tissue_mask c of Some m \<Rightarrow> os_path_exists e m | None \<Rightarrow> True)
                       \<and> (case coil_image c of Some m \<Rightarrow> os_path_exists e m | None \<Rightarrow> True)
                  else True)
         else True)"

text \<open>
  All options of the main command of a successful run, in order.
\<close>

definition all_flags ::
  "'f env \<Rightarrow> 'f gui \<Rightarrow> string \<Rightarrow> string \<Rightarrow> 'f list \<Rightarrow> 'f list \<Rightarrow> string list" where
  "all_flags e g out v ts bs =
     main_flags e g out v ts bs @ transform_flags g @ structural_flags g out
     @ readout_flags e g @ distcorr_flags e g @ calibration_flags e g"

text \<open>
  The value of \<^verbatim>\<open>N\<close> on lines 442 and 443.
\<close>

definition nvols_per_repeat :: "'f AslInputOptions \<Rightarrow> int" where
  "nvols_per_repeat i = (if tc_pairs i then ntis i * 2 else ntis i)"

text \<open>
  Several options added at once.
\<close>

definition extend :: "FslCmd \<Rightarrow> string list \<Rightarrow> FslCmd" where
  "extend c xs = c\<lparr>opts := opts c @ xs\<rparr>"

text \<open>
  An order string is valid when it has three letters and they are t, r and p (each
  letter exactly once).
\<close>

definition valid_order :: "string \<Rightarrow> bool" where
  "valid_order ord = (length ord = 3 \<and> set ord = {CHR ''t'', CHR ''r'', CHR ''p''})"

text \<open>
  The number of elements one element expands to, for a letter.
\<close>

definition factor :: "AslDataPreview \<Rightarrow> char \<Rightarrow> nat" where
  "factor dp t = length (expand dp t 0)"

text \<open>
  Options that are none of the flags \<^verbatim>\<open>--t1\<close>, \<^verbatim>\<open>--bat\<close>, \<^verbatim>\<open>--wp\<close>, \<^verbatim>\<open>--diff\<close> and
  \<^verbatim>\<open>--cmethod\<close>.
\<close>

definition other_flag :: "string \<Rightarrow> bool" where
  "other_flag x =
     (\<not> prefix ''--t1 '' x \<and> \<not> prefix ''--bat '' x \<and> x \<noteq> ''--wp'' \<and> x \<noteq> ''--diff''
      \<and> \<not> prefix ''--cmethod'' x)"

section \<open>Example configurations\<close>

text \<open>
  Float operations for the examples. The numbers of the examples are decimal fractions
  with at most two decimals; they are held as exact rationals, added and divided exactly,
  and written with the digits asked for, rounded to the nearest (ties to even). On the
  numbers of the examples this gives the text that the interpreter prints for the
  doubles nearest to them.
\<close>

definition round_half_even :: "rat \<Rightarrow> int" where
  "round_half_even x =
     (let n = \<lfloor>x\<rfloor>; r = x - of_int n
      in if 1 / 2 < r \<or> (r = 1 / 2 \<and> odd n) then n + 1 else n)"

definition zfill :: "nat \<Rightarrow> string \<Rightarrow> string" where
  "zfill w s = replicate (w - length s) CHR ''0'' @ s"

definition decimal_fmt :: "nat \<Rightarrow> rat \<Rightarrow> string" where
  "decimal_fmt d x =
     (let m = nat (round_half_even (\<bar>x\<bar> * 10 ^ d))
      in (if x < 0 then ''-'' else []) @ str_nat (m div 10 ^ d) @ ''.''
         @ zfill d (str_nat (m mod 10 ^ d)))"

text \<open>
  A file system holding an input image of \<open>nvols\<close> volumes, a structural image, a brain
  image and a calibration image; no FSL installation is found, so every program is
  called by its bare name.
\<close>

definition example_env :: "int \<Rightarrow> rat env" where
  "example_env nvols =
     \<lparr>os_path_exists = (\<lambda>p. p \<in> set [''/d/asl.nii'', ''/d/struc.nii'', ''/d/brain.nii'',
                                        ''/d/calib.nii'']),
      nib_load_shape = (\<lambda>p. if p = ''/d/asl.nii'' then Inr [64, 64, 20, nvols]
                             else Inl ImageFileError),
      localdir = ''/opt/gui'',
      environ_FSLDIR = None,
      float_add = (\<lambda>x y. x + y),
      float_div = (\<lambda>x n. x / of_int n),
      float_fmt = decimal_fmt\<rparr>"

text \<open>
  Three timing points at 0.25, 0.5 and 1 second, cASL labelling, a constant bolus
  duration of 1.8 seconds, output to \<^verbatim>\<open>/out\<close>; \<open>pairs\<close> is the check box of tag-control
  pairs and \<open>ord\<close> the order string of the preview.
\<close>

definition example_input :: "bool \<Rightarrow> rat AslInputOptions" where
  "example_input pairs =
     \<lparr>data_picker = ''/d/asl.nii'', ntis_int = 3, tc_ch_checkbox = pairs, tc_ch = 0,
      labelling_ch = 1, bolus_dur_ch = 0, bolus_dur_num = 18 / 10,
      bolus_dur_list = [Some (18 / 10), Some (18 / 10), Some (18 / 10)],
      ti_list = [Some (1 / 4), Some (1 / 2), Some 1],
      readout_ch = 0, time_per_slice_num = 10, multiband_cb = False, slices_per_band_spin = 5,
      fsl_anat_picker_checkbox = False, fsl_anat_picker = [],
      struc_image_picker_checkbox = False, struc_image_picker = [],
      struc_image_ch = 0, struc_image_brain_picker = []\<rparr>"

definition example_analysis :: "rat AslAnalysis" where
  "example_analysis =
     \<lparr>transform_cb = False, transform_ch = 2, transform_picker = [],
      outdir_picker = ''/out'', mask_picker_checkbox = False, mask_picker = [],
      wp_cb = False, bat_num = 13 / 10, t1_num = 13 / 10, t1b_num = 165 / 100,
      ie_num = 85 / 100, spatial_cb = True, infer_t1_cb = False, macro_cb = False,
      fixbolus_cb = True, pv_cb = False, mc_cb = False\<rparr>"

definition example_distcorr :: "rat AslDistCorr" where
  "example_distcorr =
     \<lparr>distcorr_cb = False, distcorr_ch = 0, fmap_picker = [], fmap_mag_picker = [],
      fmap_mag_be_cb = False, echosp_num = 0, pedir_ch = ''x'', cblip_cb = False\<rparr>"

definition example_calibration :: "rat AslCalibration" where
  "example_calibration =
     \<lparr>calib_cb = False, calib_image_picker = ''/d/calib.nii'', m0_type_ch = 0,
      seq_tr_num = 6, calib_gain_num = 1, calib_mode_ch = 0, ref_tissue_type_ch = 0,
      ref_tissue_mask_picker_checkbox = False, ref_tissue_mask_picker = [],
      seq_te_num = 0, blood_t2_num = 150, coil_image_picker_checkbox = False,
      coil_image_picker = [], ref_t1_num = 43 / 10, ref_t2_num = 750\<rparr>"

definition example_gui :: "bool \<Rightarrow> string \<Rightarrow> rat gui" where
  "example_gui pairs ord =
     \<lparr>input = example_input pairs, analysis = example_analysis,
      distcorr_page = example_distcorr, calibration = example_calibration,
      order_preview = \<lparr>n_tis = 1, n_repeats = 1, pv_tc_pairs = True, pv_tagfirst = True,
                        pv_order = ord\<rparr>,
      nrepeats_label = ''<Unknown>''\<rparr>"

text \<open>
  Variations of the example: calibration with saturation recovery chosen; white paper
  mode with calibration on and the calibration mode still at 0 (reference region); the
  main command expected for each; a structural image with brain extraction requested,
  and the three commands expected for it.
\<close>

definition example_saturation :: "rat gui" where
  "example_saturation =
     (example_gui True ''trp'')
       \<lparr>calibration := example_calibration\<lparr>calib_cb := True, m0_type_ch := 1\<rparr>\<rparr>"

definition example_white_paper :: "rat gui" where
  "example_white_paper =
     (example_gui True ''trp'')
       \<lparr>analysis := example_analysis\<lparr>wp_cb := True\<rparr>,
        calibration := example_calibration\<lparr>calib_cb := True\<rparr>\<rparr>"

definition example_pairs_cmd :: FslCmd where
  "example_pairs_cmd =
     \<lparr>prog = ''oxford_asl'',
      opts = ['' -i \"/d/asl.nii\"'', ''-o \"/out\"'', ''--ibf=tis --iaf=tcb'',
              ''--tis 2.05,2.30,2.80'', ''--bolus 1.80'', ''--t1 1.30'', ''--bat 1.30'',
              ''--t1b 1.65'', ''--alpha 0.85'', ''--spatial=1'', ''--fixbolus=1'', ''--mc=0'',
              ''--artoff'', ''--casl'']\<rparr>"

definition example_white_paper_cmd :: FslCmd where
  "example_white_paper_cmd =
     \<lparr>prog = ''oxford_asl'',
      opts = ['' -i \"/d/asl.nii\"'', ''-o \"/out\"'', ''--ibf=tis --iaf=tcb'',
              ''--tis 2.05,2.30,2.80'', ''--bolus 1.80'', ''--wp'', ''--t1b 1.65'',
              ''--alpha 0.85'', ''--spatial=1'', ''--fixbolus=1'', ''--mc=0'', ''--artoff'',
              ''--casl'', ''-c \"/d/calib.nii\"'', ''--tr 6.00'', ''--cgain 1.00'',
              ''--cmethod voxel'']\<rparr>"

definition example_structural :: "rat gui" where
  "example_structural =
     (example_gui True ''trp'')
       \<lparr>input := (example_input True)
          \<lparr>struc_image_picker_checkbox := True, struc_image_picker := ''/d/struc.nii'',
           struc_image_ch := 1\<rparr>\<rparr>"

definition example_structural_run :: "FslCmd list" where
  "example_structural_run =
     [\<lparr>prog = ''imcp'', opts = [''\"/d/struc.nii\"'', ''\"/out/structural_head\"'']\<rparr>,
      \<lparr>prog = ''bet'', opts = [''\"/d/struc.nii\"'', ''\"/out/structural_brain\"'']\<rparr>,
      \<lparr>prog = ''oxford_asl'',
       opts = ['' -i \"/d/asl.nii\"'', ''-o \"/out\"'', ''--ibf=tis --iaf=tcb'',
               ''--tis 2.05,2.30,2.80'', ''--bolus 1.80'', ''--t1 1.30'', ''--bat 1.30'',
               ''--t1b 1.65'', ''--alpha 0.85'', ''--spatial=1'', ''--fixbolus=1'', ''--mc=0'',
               ''--artoff'', ''--casl'', ''--s \"/out/structural_head\"'',
               ''--sbrain \"/out/structural_brain\"'']\<rparr>]"

section \<open>Lemmas and theorems\<close>

lemma then_do_Inr: "then_do m f = Inr y \<longleftrightarrow> (\<exists>v. m = Inr v \<and> f v = Inr y)"
  by (cases m) (simp_all add: then_do_def)

lemma then_do_simps [simp]:
  "then_do (Inl x) f = Inl x"
  "then_do (Inr v) f = f v"
  by (simp_all add: then_do_def)

lemma then_do_if:
  "then_do (if c then a else b) f = (if c then then_do a f else then_do b f)"
  by simp

lemma then_do_check_exists:
  "then_do (check_exists e l p) f =
     (if os_path_exists e p then f () else Inl (RuntimeError (l @ '' - no such file or directory'')))"
  by (simp add: check_exists_def)

lemma add_eq: "add c x = c\<lparr>opts := opts c @ [x]\<rparr>"
  by (simp add: add_def)

lemma if_add: "(if b then add c x else c) = c\<lparr>opts := opts c @ (if b then [x] else [])\<rparr>"
  by (simp add: add_def)

lemma opts_init: "opts (FslCmd_init e c) = []"
  by (simp add: FslCmd_init_def Let_def)

lemma transform_options_Inr:
  assumes "transform_options e g cmd = Inr cmd'"
  shows "cmd' = cmd\<lparr>opts := opts cmd @ transform_flags g\<rparr>"
  using assms
  by (simp add: transform_options_def transform_flags_def then_do_check_exists add_eq split: if_splits)

lemma readout_options_eq:
  "readout_options e g cmd = cmd\<lparr>opts := opts cmd @ readout_flags e g\<rparr>"
  by (simp add: readout_options_def readout_flags_def add_eq Let_def)

lemma distcorr_options_Inr:
  assumes "distcorr_options e g cmd = Inr cmd'"
  shows "cmd' = cmd\<lparr>opts := opts cmd @ distcorr_flags e g\<rparr> \<and>
         (distcorr (distcorr_page g) \<longrightarrow> distcorr_type (distcorr_page g) \<noteq> 0)"
  using assms
  by (simp add: distcorr_options_def distcorr_flags_def then_do_check_exists then_do_if add_eq Let_def
       split: if_splits)

lemma then_do_case_option:
  "then_do (case x of None \<Rightarrow> a | Some v \<Rightarrow> b v) f =
     (case x of None \<Rightarrow> then_do a f | Some v \<Rightarrow> then_do (b v) f)"
  by (cases x) simp_all

lemma calibration_options_Inr:
  assumes "calibration_options e g cmd = Inr cmd'"
  shows "cmd' = cmd\<lparr>opts := opts cmd @ calibration_flags e g\<rparr> \<and>
         (calib (calibration g) \<longrightarrow> m0_type (calibration g) = 0)"
  using assms
  by (simp add: calibration_options_def calibration_flags_def then_do_check_exists then_do_if
        then_do_case_option add_eq Let_def
       split: if_splits option.splits)

lemma structural_image_Inr:
  assumes "structural_image e g out run cmd = Inr (run', cmd')"
  shows "cmd' = cmd\<lparr>opts := opts cmd @ structural_flags g out\<rparr>
         \<and> run' = run @ structural_cmds e g out"
  using assms
  by (simp add: structural_image_def structural_flags_def structural_cmds_def
        then_do_check_exists then_do_if then_do_case_option add_eq Let_def opts_init
        struc_image_brain_def struc_image_def
       split: if_splits option.splits)

lemma wp_add:
  "(if b then add c x else add (add c y) z) = c\<lparr>opts := opts c @ (if b then [x] else [y, z])\<rparr>"
  by (simp add: add_def)

lemma add_extend: "add c x = extend c [x]"
  by (simp add: add_def extend_def)

lemma if_extend: "(if b then extend c xs else c) = extend c (if b then xs else [])"
  by (simp add: extend_def)

lemma if_extend2: "(if b then extend c xs else extend c ys) = extend c (if b then xs else ys)"
  by (simp add: extend_def)

lemma extend_extend: "extend (extend c xs) ys = extend c (xs @ ys)"
  by (simp add: extend_def)

lemma extend_init: "extend (FslCmd_init e c) xs = (FslCmd_init e c)\<lparr>opts := xs\<rparr>"
  by (simp add: extend_def opts_init)

lemma main_tail:
  assumes "get_data_order_options g = Inr od" and "tis e (input g) = Inr ts"
    and "bolus_dur (input g) = Inr bs"
  shows "main_options e g out =
       (case mask (analysis g) of
          Some m \<Rightarrow> if os_path_exists e m
                    then Inr ((FslCmd_init e ''oxford_asl'')\<lparr>opts := main_flags e g out (fst od) ts bs\<rparr>)
                    else Inl (RuntimeError ''Analysis mask - no such file or directory'')
        | None \<Rightarrow> Inr ((FslCmd_init e ''oxford_asl'')\<lparr>opts := main_flags e g out (fst od) ts bs\<rparr>))"
  unfolding main_options_def
  apply (simp only: assms add_extend extend_extend if_extend if_extend2 then_do_check_exists then_do_case_option then_do_simps then_do_if Let_def)
  apply (simp only: extend_init main_flags_def)
  apply (cases "mask (analysis g)")
   apply (simp_all add: extend_def)
  done

lemma main_options_Inr:
  assumes "main_options e g out = Inr cmd"
  shows "\<exists>v d ts bs. get_data_order_options g = Inr (v, d) \<and> tis e (input g) = Inr ts
           \<and> bolus_dur (input g) = Inr bs
           \<and> cmd = (FslCmd_init e ''oxford_asl'')\<lparr>opts := main_flags e g out v ts bs\<rparr>"
proof -
  obtain od where od: "get_data_order_options g = Inr od"
    using assms by (cases "get_data_order_options g") (simp_all add: main_options_def Let_def)
  obtain ts where ts: "tis e (input g) = Inr ts"
    using assms od by (cases "tis e (input g)") (simp_all add: main_options_def Let_def)
  obtain bs where bs: "bolus_dur (input g) = Inr bs"
    using assms od ts by (cases "bolus_dur (input g)") (simp_all add: main_options_def Let_def)
  have "cmd = (FslCmd_init e ''oxford_asl'')\<lparr>opts := main_flags e g out (fst od) ts bs\<rparr>"
    using assms unfolding main_tail [OF od ts bs]
    by (simp split: option.splits if_splits)
  then show ?thesis using od ts bs by (cases od) auto
qed

lemma check_input_data_tabs:
  "input (snd (check_input_data e g)) = input g"
  "analysis (snd (check_input_data e g)) = analysis g"
  "distcorr_page (snd (check_input_data e g)) = distcorr_page g"
  "calibration (snd (check_input_data e g)) = calibration g"
  "pv_order (order_preview (snd (check_input_data e g))) = pv_order (order_preview g)"
  by (simp_all add: check_input_data_def Let_def split: sum.splits)

lemma check_input_data_loaded:
  assumes "os_path_exists e (data (input g))" and "nib_load_shape e (data (input g)) = Inr shape"
    and "length shape = 4"
  shows "check_input_data e g =
     (let N = nvols_per_repeat (input g) in
      if N = 0 then (Inl ZeroDivisionError, g)
      else if shape ! 3 mod N \<noteq> 0 then
        (Inl (RuntimeError
           (''Input data contains '' @ str_int (shape ! 3)
            @ '' volumes - not consistent with '' @ str_int (ntis (input g))
            @ '' TIs and TC pairs='' @ str_bool (tc_pairs (input g)))),
         g\<lparr>nrepeats_label := ''<Unknown>''\<rparr>)
      else
        (Inr (),
         g\<lparr>nrepeats_label := str_int (shape ! 3 div N),
           order_preview := (order_preview g)
             \<lparr>n_tis := ntis (input g),
              n_repeats := shape ! 3 div N,
              pv_tc_pairs := tc_pairs (input g),
              pv_tagfirst := (tc_ch (input g) = 0)\<rparr>\<rparr>))"
  unfolding check_input_data_def check_exists_def nvols_per_repeat_def
  using assms
  by (simp only: if_False if_True not_True_eq_False sum.case not_False_eq_True refl Let_def)

lemma check_input_data_missing:
  "\<not> os_path_exists e (data (input g)) \<Longrightarrow>
     check_input_data e g = (Inl (RuntimeError ''Input data - no such file or directory''), g)"
  unfolding check_input_data_def check_exists_def
  by (simp only: if_True not_False_eq_True sum.case append.simps)

lemma check_input_data_load_error:
  "os_path_exists e (data (input g)) \<Longrightarrow> nib_load_shape e (data (input g)) = Inl x \<Longrightarrow>
     check_input_data e g = (Inl x, g)"
  unfolding check_input_data_def check_exists_def
  by (simp only: if_False not_True_eq_False sum.case)

lemma check_input_data_not_4D:
  "os_path_exists e (data (input g)) \<Longrightarrow> nib_load_shape e (data (input g)) = Inr shape \<Longrightarrow>
     length shape \<noteq> 4 \<Longrightarrow>
     check_input_data e g = (Inl (RuntimeError ''Input data is not a 4D image''), g)"
  unfolding check_input_data_def check_exists_def
  by (simp only: if_False if_True not_True_eq_False not_False_eq_True sum.case)

lemma check_input_data_Inr:
  assumes "fst (check_input_data e g) = Inr u"
  obtains shape where "os_path_exists e (data (input g))"
    and "nib_load_shape e (data (input g)) = Inr shape"
    and "length shape = 4" and "nvols_per_repeat (input g) \<noteq> 0"
    and "shape ! 3 mod nvols_per_repeat (input g) = 0"
proof -
  have ex: "os_path_exists e (data (input g))"
  proof (rule ccontr)
    assume "\<not> os_path_exists e (data (input g))"
    from check_input_data_missing [OF this] assms show False by simp
  qed
  obtain shape where sh: "nib_load_shape e (data (input g)) = Inr shape"
  proof (cases "nib_load_shape e (data (input g))")
    case (Inl x)
    from check_input_data_load_error [OF ex this] assms show ?thesis by simp
  next
    case (Inr shape)
    then show ?thesis by (rule that)
  qed
  have len: "length shape = 4"
  proof (rule ccontr)
    assume "length shape \<noteq> 4"
    from check_input_data_not_4D [OF ex sh this] assms show False by simp
  qed
  note L = check_input_data_loaded [OF ex sh len]
  have nz: "nvols_per_repeat (input g) \<noteq> 0"
  proof
    assume z: "nvols_per_repeat (input g) = 0"
    have "check_input_data e g = (Inl ZeroDivisionError, g)"
      unfolding L Let_def by (simp only: z if_True refl)
    with assms show False by simp
  qed
  have md: "shape ! 3 mod nvols_per_repeat (input g) = 0"
  proof (rule ccontr)
    assume m: "shape ! 3 mod nvols_per_repeat (input g) \<noteq> 0"
    have "fst (check_input_data e g) = Inl (RuntimeError
           (''Input data contains '' @ str_int (shape ! 3)
            @ '' volumes - not consistent with '' @ str_int (ntis (input g))
            @ '' TIs and TC pairs='' @ str_bool (tc_pairs (input g))))"
      unfolding L Let_def by (simp only: nz m if_False if_True not_False_eq_True fst_conv)
    with assms show False by simp
  qed
  show ?thesis by (rule that [OF ex sh len nz md])
qed

lemma check_input_data_tagfirst:
  assumes "fst (check_input_data e g) = Inr u"
  shows "pv_tagfirst (order_preview (snd (check_input_data e g))) = (tc_ch (input g) = 0)"
proof -
  from assms obtain shape where
    a: "os_path_exists e (data (input g))" and b: "nib_load_shape e (data (input g)) = Inr shape"
    and c: "length shape = 4" and d: "nvols_per_repeat (input g) \<noteq> 0"
    and m: "shape ! 3 mod nvols_per_repeat (input g) = 0"
    by (rule check_input_data_Inr)
  show ?thesis
    unfolding check_input_data_loaded [OF a b c] Let_def
    by (simp add: d m)
qed

lemma get_run_sequence_eq:
  "fst (get_run_sequence e g) =
     (case fst (check_input_data e g) of Inl x \<Rightarrow> Inl x
      | Inr _ \<Rightarrow> build_run e (snd (check_input_data e g)))"
  "snd (get_run_sequence e g) = snd (check_input_data e g)"
  by (simp_all add: get_run_sequence_def split: prod.splits sum.splits)

lemma flags_tabs:
  assumes "input g' = input g" and "analysis g' = analysis g"
    and "distcorr_page g' = distcorr_page g" and "calibration g' = calibration g"
  shows "main_flags e g' = main_flags e g" and "transform_flags g' = transform_flags g"
    and "structural_flags g' = structural_flags g" and "structural_cmds e g' = structural_cmds e g"
    and "readout_flags e g' = readout_flags e g" and "distcorr_flags e g' = distcorr_flags e g"
    and "calibration_flags e g' = calibration_flags e g"
  using assms
  by (simp_all add: main_flags_def transform_flags_def structural_flags_def structural_cmds_def
        readout_flags_def distcorr_flags_def calibration_flags_def fun_eq_iff
      cong: option.case_cong if_cong)

lemma build_run_Inr:
  assumes "build_run e g = Inr run"
  shows "\<exists>v d ts bs. outdir (analysis g) \<noteq> [] \<and> get_data_order_options g = Inr (v, d)
           \<and> tis e (input g) = Inr ts \<and> bolus_dur (input g) = Inr bs
           \<and> run = structural_cmds e g (outdir (analysis g))
                   @ [(FslCmd_init e ''oxford_asl'')
                        \<lparr>opts := all_flags e g (outdir (analysis g)) v ts bs\<rparr>]
           \<and> (calib (calibration g) \<longrightarrow> m0_type (calibration g) = 0)
           \<and> (distcorr (distcorr_page g) \<longrightarrow> distcorr_type (distcorr_page g) \<noteq> 0)"
proof -
  let ?out = "outdir (analysis g)"
  have out: "check_outdir g = Inr ?out" and ne: "?out \<noteq> []"
    using assms by (auto simp add: build_run_def check_outdir_def Let_def split: if_splits)
  from assms out obtain c1 where c1: "main_options e g ?out = Inr c1"
    by (cases "main_options e g ?out") (simp_all add: build_run_def)
  from assms out c1 obtain c2 where c2: "transform_options e g c1 = Inr c2"
    by (cases "transform_options e g c1") (simp_all add: build_run_def)
  from assms out c1 c2 obtain r3 c3 where c3: "structural_image e g ?out [] c2 = Inr (r3, c3)"
    by (cases "structural_image e g ?out [] c2") (auto simp add: build_run_def)
  from assms out c1 c2 c3 obtain c4 where c4: "distcorr_options e g (readout_options e g c3) = Inr c4"
    by (cases "distcorr_options e g (readout_options e g c3)") (simp_all add: build_run_def)
  from assms out c1 c2 c3 c4 obtain c5 where c5: "calibration_options e g c4 = Inr c5"
    and run: "run = r3 @ [c5]"
    by (cases "calibration_options e g c4") (simp_all add: build_run_def)
  from main_options_Inr [OF c1] obtain v d ts bs where
    od: "get_data_order_options g = Inr (v, d)" and ts: "tis e (input g) = Inr ts"
    and bs: "bolus_dur (input g) = Inr bs"
    and e1: "c1 = (FslCmd_init e ''oxford_asl'')\<lparr>opts := main_flags e g ?out v ts bs\<rparr>"
    by blast
  note e2 = transform_options_Inr [OF c2]
  note e3 = structural_image_Inr [OF c3]
  note e4 = distcorr_options_Inr [OF c4]
  note e5 = calibration_options_Inr [OF c5]
  have "c5 = (FslCmd_init e ''oxford_asl'')\<lparr>opts := all_flags e g ?out v ts bs\<rparr>"
    using e1 e2 e3 e4 e5 by (simp add: readout_options_eq all_flags_def)
  then show ?thesis using ne od ts bs run e3 e4 e5 by auto
qed

lemma transform_options_ok:
  assumes "transform_ok e g"
  shows "transform_options e g cmd = Inr (cmd\<lparr>opts := opts cmd @ transform_flags g\<rparr>)"
  using assms
  by (simp add: transform_ok_def transform_options_def transform_flags_def then_do_check_exists add_eq
      split: if_splits)

lemma structural_image_ok:
  assumes "structural_ok e g"
  shows "structural_image e g out run cmd =
           Inr (run @ structural_cmds e g out, cmd\<lparr>opts := opts cmd @ structural_flags g out\<rparr>)"
  using assms
  by (simp add: structural_ok_def structural_image_def structural_flags_def structural_cmds_def
        then_do_check_exists then_do_if then_do_case_option add_eq Let_def opts_init
        struc_image_brain_def struc_image_def
       split: if_splits option.splits)

lemma distcorr_options_ok:
  assumes "distcorr_ok g"
  shows "distcorr_options e g cmd = Inr (cmd\<lparr>opts := opts cmd @ distcorr_flags e g\<rparr>)"
  using assms
  by (simp add: distcorr_ok_def distcorr_options_def distcorr_flags_def then_do_check_exists
        then_do_if add_eq Let_def split: if_splits)

lemma calibration_options_ok:
  assumes "calibration_ok e g"
  shows "calibration_options e g cmd = Inr (cmd\<lparr>opts := opts cmd @ calibration_flags e g\<rparr>)"
  using assms
  by (auto simp add: calibration_ok_def calibration_options_def calibration_flags_def
        then_do_check_exists then_do_if then_do_case_option add_eq Let_def
       split: if_splits option.splits)

lemma main_options_ok:
  assumes "get_data_order_options g = Inr (v, d)" and "tis e (input g) = Inr ts"
    and "bolus_dur (input g) = Inr bs" and "mask_ok e g"
  shows "main_options e g out = Inr ((FslCmd_init e ''oxford_asl'')\<lparr>opts := main_flags e g out v ts bs\<rparr>)"
  using assms(4) unfolding main_tail [OF assms(1-3)]
  by (auto simp add: mask_ok_def split: option.splits)

lemma build_run_ok:
  assumes "outdir (analysis g) \<noteq> []"
    and "get_data_order_options g = Inr (v, d)" and "tis e (input g) = Inr ts"
    and "bolus_dur (input g) = Inr bs" and "mask_ok e g" and "transform_ok e g"
    and "structural_ok e g" and "distcorr_ok g" and "calibration_ok e g"
  shows "build_run e g = Inr (structural_cmds e g (outdir (analysis g))
           @ [(FslCmd_init e ''oxford_asl'')\<lparr>opts := all_flags e g (outdir (analysis g)) v ts bs\<rparr>])"
proof -
  have o: "check_outdir g = Inr (outdir (analysis g))"
    using assms(1) by (simp add: check_outdir_def Let_def)
  show ?thesis
    unfolding build_run_def o then_do_simps
      main_options_ok [OF assms(2-5)] transform_options_ok [OF assms(6)]
      structural_image_ok [OF assms(7)] prod.case Let_def readout_options_eq
      distcorr_options_ok [OF assms(8)] calibration_options_ok [OF assms(9)]
    by (simp add: all_flags_def)
qed

lemma structural_image_Inr_ok:
  assumes "structural_image e g out run cmd = Inr r"
  shows "structural_ok e g"
  using assms
  by (auto simp add: structural_ok_def structural_image_def
        then_do_check_exists then_do_if then_do_case_option Let_def
        struc_image_brain_def struc_image_def falsy_def
       split: if_splits option.splits)

lemma get_run_sequence_Inr:
  assumes "fst (get_run_sequence e g) = Inr run"
  obtains "fst (check_input_data e g) = Inr ()"
    and "build_run e (snd (check_input_data e g)) = Inr run"
proof (cases "fst (check_input_data e g)")
  case (Inl x)
  with assms show ?thesis by (simp add: get_run_sequence_eq)
next
  case (Inr u)
  with assms have "build_run e (snd (check_input_data e g)) = Inr run"
    by (simp add: get_run_sequence_eq)
  with Inr show ?thesis by (simp add: that)
qed

lemma get_run_sequence_ok:
  assumes "os_path_exists e (data (input g))"
    and "nib_load_shape e (data (input g)) = Inr shape" and "length shape = 4"
    and "nvols_per_repeat (input g) \<noteq> 0" and "shape ! 3 mod nvols_per_repeat (input g) = 0"
    and "outdir (analysis g) \<noteq> []"
    and "map_of order_opts
           (order_key (g\<lparr>order_preview :=
                          (order_preview g)\<lparr>pv_tagfirst := (tc_ch (input g) = 0)\<rparr>\<rparr>)) = Some v"
    and "tis e (input g) = Inr ts" and "bolus_dur (input g) = Inr bs"
    and "mask_ok e g" and "transform_ok e g" and "structural_ok e g" and "distcorr_ok g"
    and "calibration_ok e g"
  shows "fst (get_run_sequence e g) =
           Inr (structural_cmds e g (outdir (analysis g))
                @ [(FslCmd_init e ''oxford_asl'')
                     \<lparr>opts := all_flags e g (outdir (analysis g)) v ts bs\<rparr>])"
proof -
  let ?g = "snd (check_input_data e g)"
  have c: "check_input_data e g =
       (Inr (),
         g\<lparr>nrepeats_label := str_int (shape ! 3 div nvols_per_repeat (input g)),
           order_preview := (order_preview g)
             \<lparr>n_tis := ntis (input g),
              n_repeats := shape ! 3 div nvols_per_repeat (input g),
              pv_tc_pairs := tc_pairs (input g),
              pv_tagfirst := (tc_ch (input g) = 0)\<rparr>\<rparr>)"
    unfolding check_input_data_loaded [OF assms(1-3)] Let_def
    by (simp only: assms(4,5) if_False refl not_True_eq_False not_False_eq_True)
  have t: "input ?g = input g" "analysis ?g = analysis g" "distcorr_page ?g = distcorr_page g"
    "calibration ?g = calibration g"
    by (rule check_input_data_tabs)+
  have "order_key ?g = order_key (g\<lparr>order_preview :=
                          (order_preview g)\<lparr>pv_tagfirst := (tc_ch (input g) = 0)\<rparr>\<rparr>)"
    by (simp add: order_key_def data_order_def c)
  then have od: "get_data_order_options ?g = Inr (v, if tc_pairs (input g) then ''--diff'' else [])"
    using assms(7) by (simp add: get_data_order_options_def t Let_def)
  have ok: "mask_ok e ?g" "transform_ok e ?g" "structural_ok e ?g" "distcorr_ok ?g"
    "calibration_ok e ?g"
    using assms(10-14)
    by (simp_all only: mask_ok_def transform_ok_def structural_ok_def distcorr_ok_def
          calibration_ok_def t)
  have f: "fst (check_input_data e g) = Inr ()"
    by (simp only: c fst_conv)
  have "build_run e ?g = Inr (structural_cmds e ?g (outdir (analysis ?g))
           @ [(FslCmd_init e ''oxford_asl'')\<lparr>opts := all_flags e ?g (outdir (analysis ?g)) v ts bs\<rparr>])"
    by (rule build_run_ok [OF _ od _ _ ok]) (simp_all only: t assms not_False_eq_True)
  moreover have "all_flags e ?g = all_flags e g" "structural_cmds e ?g = structural_cmds e g"
    by (simp_all add: all_flags_def flags_tabs [OF t] fun_eq_iff)
  ultimately have b: "build_run e ?g = Inr (structural_cmds e g (outdir (analysis g))
           @ [(FslCmd_init e ''oxford_asl'')\<lparr>opts := all_flags e g (outdir (analysis g)) v ts bs\<rparr>])"
    by (simp only: t)
  show ?thesis
    unfolding get_run_sequence_eq(1) f sum.case b ..
qed

text \<open>
  C5. For an input file that exists and loads as a 4D image of \<open>nvols\<close> volumes, and at
  least one timing point: when \<open>N\<close> (the timing points, doubled under tag-control pairs)
  does not divide \<open>nvols\<close>, \<^verbatim>\<open>get_run_sequence\<close> raises the error that reports the
  volumes, the timing points and the pair flag, and the label of the repeats reads
  \<^verbatim>\<open><Unknown>\<close>; when it divides, the check passes and the label and the preview hold
  the quotient.
\<close>

theorem volume_count_check:
  assumes "os_path_exists e (data (input g))"
    and "nib_load_shape e (data (input g)) = Inr [nx, ny, nz, nvols]"
    and "1 \<le> ntis (input g)"
  shows "(\<not> nvols_per_repeat (input g) dvd nvols \<longrightarrow>
            get_run_sequence e g =
              (Inl (RuntimeError
                 (''Input data contains '' @ str_int nvols
                  @ '' volumes - not consistent with '' @ str_int (ntis (input g))
                  @ '' TIs and TC pairs='' @ str_bool (tc_pairs (input g)))),
               g\<lparr>nrepeats_label := ''<Unknown>''\<rparr>))
       \<and> (nvols_per_repeat (input g) dvd nvols \<longrightarrow>
            fst (check_input_data e g) = Inr ()
            \<and> snd (get_run_sequence e g) =
                g\<lparr>nrepeats_label := str_int (nvols div nvols_per_repeat (input g)),
                  order_preview := (order_preview g)
                    \<lparr>n_tis := ntis (input g),
                     n_repeats := nvols div nvols_per_repeat (input g),
                     pv_tc_pairs := tc_pairs (input g),
                     pv_tagfirst := (tc_ch (input g) = 0)\<rparr>\<rparr>)"
proof -
  let ?N = "nvols_per_repeat (input g)"
  have len: "length [nx, ny, nz, nvols] = 4" by simp
  have n3: "[nx, ny, nz, nvols] ! 3 = nvols" by simp
  have nz: "?N \<noteq> 0" using assms(3) by (simp add: nvols_per_repeat_def)
  note L = check_input_data_loaded [OF assms(1,2) len, unfolded Let_def n3]
  have d: "(?N dvd nvols) = (nvols mod ?N = 0)" by (rule dvd_eq_mod_eq_0)
  show ?thesis
  proof (cases "nvols mod ?N = 0")
    case True
    have "check_input_data e g = (Inr (),
                g\<lparr>nrepeats_label := str_int (nvols div ?N),
                  order_preview := (order_preview g)
                    \<lparr>n_tis := ntis (input g),
                     n_repeats := nvols div ?N,
                     pv_tc_pairs := tc_pairs (input g),
                     pv_tagfirst := (tc_ch (input g) = 0)\<rparr>\<rparr>)"
      unfolding L by (simp only: nz True if_False refl not_True_eq_False)
    then show ?thesis using True by (simp add: d get_run_sequence_eq)
  next
    case False
    have "check_input_data e g = (Inl (RuntimeError
                 (''Input data contains '' @ str_int nvols
                  @ '' volumes - not consistent with '' @ str_int (ntis (input g))
                  @ '' TIs and TC pairs='' @ str_bool (tc_pairs (input g)))),
               g\<lparr>nrepeats_label := ''<Unknown>''\<rparr>)"
      unfolding L by (simp only: nz False if_False if_True not_False_eq_True)
    then show ?thesis using False by (simp add: d get_run_sequence_def)
  qed
qed

text \<open>
  C6. With calibration enabled and an M0 type other than 0 (saturation recovery is
  choice 1), \<^verbatim>\<open>get_run_sequence\<close> raises whatever the other options are, and the
  calibration stage itself raises for every command it is given: for a missing
  calibration image when there is none, else that saturation recovery is not supported.
\<close>

theorem saturation_recovery_fails:
  assumes "calib (calibration g)" and "m0_type (calibration g) \<noteq> 0"
  shows "isl (fst (get_run_sequence e g))
       \<and> calibration_options e g cmd =
           Inl (RuntimeError
                  (if os_path_exists e (calib_image (calibration g))
                   then ''Saturation recovery not supported by oxford_asl''
                   else ''Calibration image - no such file or directory''))"
proof -
  have "isl (fst (get_run_sequence e g))"
  proof (cases "fst (get_run_sequence e g)")
    case (Inl x)
    then show ?thesis by simp
  next
    case (Inr run)
    then have "build_run e (snd (check_input_data e g)) = Inr run"
      by (rule get_run_sequence_Inr)
    from build_run_Inr [OF this] assms show ?thesis
      by (auto simp add: check_input_data_tabs)
  qed
  moreover have "calibration_options e g cmd =
           Inl (RuntimeError
                  (if os_path_exists e (calib_image (calibration g))
                   then ''Saturation recovery not supported by oxford_asl''
                   else ''Calibration image - no such file or directory''))"
    using assms by (simp add: calibration_options_def then_do_check_exists Let_def)
  ultimately show ?thesis by simp
qed

lemma get_data_order_options_Inr:
  assumes "get_data_order_options g = Inr (v, d)"
  shows "map_of order_opts (order_key g) = Some v"
    and "d = (if tc_pairs (input g) then ''--diff'' else [])"
  using assms
  by (auto simp add: get_data_order_options_def Let_def split: option.splits)

lemma order_opts_values:
  assumes "map_of order_opts k = Some v"
  shows "v \<in> set (map snd order_opts)"
proof -
  from assms have "(k, v) \<in> set order_opts" by (rule map_of_SomeD)
  then show ?thesis by force
qed

lemma last_run:
  "last (cmds @ [c]) = c"
  by simp

lemma case_option_same: "(case x of None \<Rightarrow> c | Some y \<Rightarrow> c) = c"
  by (cases x) simp_all

lemmas list_all_distrib = case_option_same
  if_distrib [of "list_all P" for P] option.case_distrib [of "list_all P" for P]

lemma order_opts_other: "list_all other_flag (map snd order_opts)"
  by (simp add: order_opts_def other_flag_def)

lemma middle_flags_other:
  "list_all other_flag
     (transform_flags g @ structural_flags g out @ readout_flags e g @ distcorr_flags e g)"
  by (simp add: transform_flags_def structural_flags_def readout_flags_def distcorr_flags_def
        other_flag_def list_all_distrib
      split del: if_split cong: if_cong option.case_cong)

lemma calibration_flags_plain:
  "list_all (\<lambda>x. \<not> prefix ''--t1 '' x \<and> \<not> prefix ''--bat '' x \<and> x \<noteq> ''--wp'' \<and> x \<noteq> ''--diff'')
     (calibration_flags e g)"
  by (simp add: calibration_flags_def Let_def list_all_distrib
      split del: if_split cong: if_cong option.case_cong)

lemma calibration_flags_voxel:
  assumes "calib (calibration g)" and "calib_mode (calibration g) \<noteq> 0"
  shows "''--cmethod voxel'' \<in> set (calibration_flags e g)"
    and "list_all (\<lambda>x. prefix ''--cmethod'' x \<longrightarrow> x = ''--cmethod voxel'') (calibration_flags e g)"
  using assms by (simp_all add: calibration_flags_def Let_def)

lemma main_flags_plain:
  assumes "other_flag v"
  shows "list_all (\<lambda>x. x \<noteq> ''--diff'' \<and> \<not> prefix ''--cmethod'' x) (main_flags e g out v ts bs)"
  using assms
  by (simp add: main_flags_def other_flag_def list_all_distrib split del: if_split
        cong: if_cong option.case_cong)

lemma main_flags_wp:
  assumes "wp (analysis g)" and "other_flag v"
  shows "''--wp'' \<in> set (main_flags e g out v ts bs)"
    and "list_all (\<lambda>x. \<not> prefix ''--t1 '' x \<and> \<not> prefix ''--bat '' x) (main_flags e g out v ts bs)"
  using assms
  by (simp_all add: main_flags_def other_flag_def list_all_distrib split del: if_split
        cong: if_cong option.case_cong)

lemma main_flags_not_wp:
  assumes "\<not> wp (analysis g)" and "other_flag v"
  shows "''--t1 '' @ float_fmt e 2 (t1 (analysis g)) \<in> set (main_flags e g out v ts bs)"
    and "''--bat '' @ float_fmt e 2 (bat (analysis g)) \<in> set (main_flags e g out v ts bs)"
    and "list_all (\<lambda>x. x \<noteq> ''--wp'') (main_flags e g out v ts bs)"
  using assms
  by (simp_all add: main_flags_def other_flag_def list_all_distrib split del: if_split
        cong: if_cong option.case_cong)

lemma set_all_flags:
  "set (all_flags e g out v ts bs) =
     set (main_flags e g out v ts bs)
     \<union> set (transform_flags g @ structural_flags g out @ readout_flags e g @ distcorr_flags e g)
     \<union> set (calibration_flags e g)"
  by (auto simp add: all_flags_def)

lemma list_allD: "list_all P xs \<Longrightarrow> x \<in> set xs \<Longrightarrow> P x"
  by (simp add: list_all_iff)

lemma get_run_sequence_flags:
  assumes "fst (get_run_sequence e g) = Inr run"
  obtains v ts bs where
    "map_of order_opts (order_key (snd (check_input_data e g))) = Some v"
    and "tis e (input g) = Inr ts" and "bolus_dur (input g) = Inr bs"
    and "outdir (analysis g) \<noteq> []"
    and "run = structural_cmds e g (outdir (analysis g))
                @ [(FslCmd_init e ''oxford_asl'')
                     \<lparr>opts := all_flags e g (outdir (analysis g)) v ts bs\<rparr>]"
proof -
  let ?g = "snd (check_input_data e g)"
  have t: "input ?g = input g" "analysis ?g = analysis g" "distcorr_page ?g = distcorr_page g"
    "calibration ?g = calibration g"
    by (rule check_input_data_tabs)+
  have fl: "all_flags e ?g = all_flags e g" "structural_cmds e ?g = structural_cmds e g"
    by (simp_all add: all_flags_def flags_tabs [OF t] fun_eq_iff)
  from assms have b: "build_run e ?g = Inr run" by (rule get_run_sequence_Inr)
  from build_run_Inr [OF b] obtain v d ts bs where
    1: "outdir (analysis ?g) \<noteq> []" and 2: "get_data_order_options ?g = Inr (v, d)"
    and 3: "tis e (input ?g) = Inr ts" and 4: "bolus_dur (input ?g) = Inr bs"
    and 5: "run = structural_cmds e ?g (outdir (analysis ?g))
                   @ [(FslCmd_init e ''oxford_asl'')
                        \<lparr>opts := all_flags e ?g (outdir (analysis ?g)) v ts bs\<rparr>]"
    by auto
  show ?thesis
  proof (rule that)
    show "map_of order_opts (order_key ?g) = Some v"
      using 2 by (rule get_data_order_options_Inr)
    show "tis e (input g) = Inr ts" using 3 by (simp only: t)
    show "bolus_dur (input g) = Inr bs" using 4 by (simp only: t)
    show "outdir (analysis g) \<noteq> []" using 1 by (simp add: t)
    show "run = structural_cmds e g (outdir (analysis g))
                @ [(FslCmd_init e ''oxford_asl'')
                     \<lparr>opts := all_flags e g (outdir (analysis g)) v ts bs\<rparr>]"
      using 5 by (simp only: t fl)
  qed
qed

lemma all_flags_ball:
  assumes "\<forall>x \<in> set (main_flags e g out v ts bs). P x"
    and "\<forall>x \<in> set (transform_flags g @ structural_flags g out @ readout_flags e g
                    @ distcorr_flags e g). P x"
    and "\<forall>x \<in> set (calibration_flags e g). P x"
  shows "\<forall>x \<in> set (all_flags e g out v ts bs). P x"
  using assms unfolding set_all_flags by (simp add: ball_Un)

lemma list_all_ball:
  assumes "list_all P xs" and "\<And>x. P x \<Longrightarrow> Q x"
  shows "\<forall>x \<in> set xs. Q x"
  using assms by (simp add: list_all_iff)

lemma main_in_all_flags:
  "x \<in> set (main_flags e g out v ts bs) \<Longrightarrow> x \<in> set (all_flags e g out v ts bs)"
  by (simp add: set_all_flags)

lemma calibration_in_all_flags:
  "x \<in> set (calibration_flags e g) \<Longrightarrow> x \<in> set (all_flags e g out v ts bs)"
  by (simp add: set_all_flags)

lemma AslCalibration_update_fixed:
  assumes "wp (analysis g) \<Longrightarrow> calib_mode (calibration g) = 1"
  shows "AslCalibration_update g = g"
  using assms by (simp add: AslCalibration_update_def calib_mode_def)

text \<open>
  C7. A run that succeeds after \<^verbatim>\<open>AslCalibration.update\<close>: under white paper mode the main
  command has the option \<^verbatim>\<open>--wp\<close> and no option \<^verbatim>\<open>--t1\<close> or \<^verbatim>\<open>--bat\<close>, and with
  calibration on its only \<^verbatim>\<open>--cmethod\<close> option is \<^verbatim>\<open>--cmethod voxel\<close>; without white paper
  mode it has no \<^verbatim>\<open>--wp\<close> and has \<^verbatim>\<open>--t1\<close> and \<^verbatim>\<open>--bat\<close> with the values of the analysis
  tab to two decimals. The voxelwise mode is forced by \<^verbatim>\<open>AslCalibration.update\<close>, which
  every change of the white paper check box runs before the commands are built; a state
  where white paper mode already goes with the voxelwise mode is left as it is by the
  update (lemma \<open>AslCalibration_update_fixed\<close>), so the theorem covers every such state.
\<close>

theorem white_paper_flags:
  assumes "fst (get_run_sequence e (AslCalibration_update g)) = Inr run"
  shows "(wp (analysis g) \<longrightarrow>
            ''--wp'' \<in> set (opts (last run))
            \<and> (\<forall>x \<in> set (opts (last run)). \<not> prefix ''--t1 '' x \<and> \<not> prefix ''--bat '' x)
            \<and> (calib (calibration g) \<longrightarrow>
                 ''--cmethod voxel'' \<in> set (opts (last run))
                 \<and> (\<forall>x \<in> set (opts (last run)).
                       prefix ''--cmethod'' x \<longrightarrow> x = ''--cmethod voxel'')))
       \<and> (\<not> wp (analysis g) \<longrightarrow>
            (\<forall>x \<in> set (opts (last run)). x \<noteq> ''--wp'')
            \<and> ''--t1 '' @ float_fmt e 2 (t1 (analysis g)) \<in> set (opts (last run))
            \<and> ''--bat '' @ float_fmt e 2 (bat (analysis g)) \<in> set (opts (last run)))"
    (is "(_ \<longrightarrow> ?W) \<and> (_ \<longrightarrow> ?N)")
proof -
  let ?g = "AslCalibration_update g"
  have a: "analysis ?g = analysis g"
    by (simp add: AslCalibration_update_def)
  have c: "calib (calibration ?g) = calib (calibration g)"
    by (simp add: AslCalibration_update_def calib_def)
  have m: "wp (analysis g) \<Longrightarrow> calib_mode (calibration ?g) \<noteq> 0"
    by (simp add: AslCalibration_update_def calib_mode_def)
  from assms obtain v ts bs where
    v: "map_of order_opts (order_key (snd (check_input_data e ?g))) = Some v"
    and run: "run = structural_cmds e ?g (outdir (analysis ?g))
                @ [(FslCmd_init e ''oxford_asl'')
                     \<lparr>opts := all_flags e ?g (outdir (analysis ?g)) v ts bs\<rparr>]"
    by (rule get_run_sequence_flags)
  let ?out = "outdir (analysis ?g)"
  have o: "opts (last run) = all_flags e ?g ?out v ts bs"
    by (simp add: run)
  have ov: "other_flag v"
    using order_opts_other order_opts_values [OF v] by (rule list_allD)
  note mid = middle_flags_other [where g = ?g and out = ?out and e = e]
  note cal = calibration_flags_plain [where g = ?g and e = e]
  show ?thesis
  proof (cases "wp (analysis g)")
    case True
    then have w: "wp (analysis ?g)" by (simp only: a)
    have 1: "''--wp'' \<in> set (opts (last run))"
      unfolding o by (rule main_in_all_flags) (rule main_flags_wp(1) [OF w ov])
    have 2: "\<forall>x \<in> set (opts (last run)). \<not> prefix ''--t1 '' x \<and> \<not> prefix ''--bat '' x"
      unfolding o
    proof (rule all_flags_ball)
      show "\<forall>x \<in> set (main_flags e ?g ?out v ts bs). \<not> prefix ''--t1 '' x \<and> \<not> prefix ''--bat '' x"
        by (rule list_all_ball [OF main_flags_wp(2) [OF w ov]])
      show "\<forall>x \<in> set (transform_flags ?g @ structural_flags ?g ?out @ readout_flags e ?g
                    @ distcorr_flags e ?g). \<not> prefix ''--t1 '' x \<and> \<not> prefix ''--bat '' x"
        by (rule list_all_ball [OF mid]) (simp add: other_flag_def)
      show "\<forall>x \<in> set (calibration_flags e ?g). \<not> prefix ''--t1 '' x \<and> \<not> prefix ''--bat '' x"
        by (rule list_all_ball [OF cal]) simp
    qed
    have 3: "calib (calibration g) \<longrightarrow>
           ''--cmethod voxel'' \<in> set (opts (last run))
           \<and> (\<forall>x \<in> set (opts (last run)). prefix ''--cmethod'' x \<longrightarrow> x = ''--cmethod voxel'')"
    proof (rule impI)
      assume cb: "calib (calibration g)"
      have cb': "calib (calibration ?g)" using cb by (simp only: c)
      note vox = calibration_flags_voxel [OF cb' m [OF True]]
      have i: "''--cmethod voxel'' \<in> set (opts (last run))"
        unfolding o by (rule calibration_in_all_flags) (rule vox(1))
      have ii: "\<forall>x \<in> set (opts (last run)). prefix ''--cmethod'' x \<longrightarrow> x = ''--cmethod voxel''"
        unfolding o
      proof (rule all_flags_ball)
        show "\<forall>x \<in> set (main_flags e ?g ?out v ts bs).
                prefix ''--cmethod'' x \<longrightarrow> x = ''--cmethod voxel''"
          by (rule list_all_ball [OF main_flags_plain [OF ov]]) simp
        show "\<forall>x \<in> set (transform_flags ?g @ structural_flags ?g ?out @ readout_flags e ?g
                    @ distcorr_flags e ?g). prefix ''--cmethod'' x \<longrightarrow> x = ''--cmethod voxel''"
          by (rule list_all_ball [OF mid]) (simp add: other_flag_def)
        show "\<forall>x \<in> set (calibration_flags e ?g).
                prefix ''--cmethod'' x \<longrightarrow> x = ''--cmethod voxel''"
          by (rule list_all_ball [OF vox(2)])
      qed
      from i ii show "''--cmethod voxel'' \<in> set (opts (last run))
           \<and> (\<forall>x \<in> set (opts (last run)). prefix ''--cmethod'' x \<longrightarrow> x = ''--cmethod voxel'')"
        by (rule conjI)
    qed
    have W: ?W by (intro conjI) (rule 1, rule 2, rule 3)
    show ?thesis
    proof (rule conjI)
      show "wp (analysis g) \<longrightarrow> ?W" by (rule impI) (rule W)
      show "\<not> wp (analysis g) \<longrightarrow> ?N" by (rule impI) (erule notE, rule True)
    qed
  next
    case False
    then have w: "\<not> wp (analysis ?g)" by (simp add: a)
    note mf = main_flags_not_wp [OF w ov, where out = ?out and ts = ts and bs = bs and e = e]
    have 1: "''--t1 '' @ float_fmt e 2 (t1 (analysis g)) \<in> set (opts (last run))"
      unfolding o using mf(1) [THEN main_in_all_flags] by (simp only: a)
    have 2: "''--bat '' @ float_fmt e 2 (bat (analysis g)) \<in> set (opts (last run))"
      unfolding o using mf(2) [THEN main_in_all_flags] by (simp only: a)
    have 3: "\<forall>x \<in> set (opts (last run)). x \<noteq> ''--wp''"
      unfolding o
    proof (rule all_flags_ball)
      show "\<forall>x \<in> set (main_flags e ?g ?out v ts bs). x \<noteq> ''--wp''"
        by (rule list_all_ball [OF mf(3)])
      show "\<forall>x \<in> set (transform_flags ?g @ structural_flags ?g ?out @ readout_flags e ?g
                    @ distcorr_flags e ?g). x \<noteq> ''--wp''"
        by (rule list_all_ball [OF mid]) (simp add: other_flag_def)
      show "\<forall>x \<in> set (calibration_flags e ?g). x \<noteq> ''--wp''"
        by (rule list_all_ball [OF cal]) simp
    qed
    have N: ?N by (intro conjI) (rule 3, rule 1, rule 2)
    show ?thesis
    proof (rule conjI)
      show "wp (analysis g) \<longrightarrow> ?W" by (rule impI) (erule notE [OF False])
      show "\<not> wp (analysis g) \<longrightarrow> ?N" by (rule impI) (rule N)
    qed
  qed
qed

lemmas getters = data_def ntis_def tc_pairs_def labelling_def bolus_dur_type_def readout_def
  time_per_slice_def multiband_def slices_per_band_def struc_image_bet_def transform_def
  transform_type_def transform_file_def outdir_def wp_def bat_def t1_def t1b_def ie_def
  spatial_def infer_t1_def macro_def fixbolus_def pv_def mc_def distcorr_def distcorr_type_def
  fmap_def fmap_mag_def fmap_mag_be_def echosp_def pedir_def cblip_def calib_def m0_type_def
  seq_tr_def seq_te_def calib_image_def calib_gain_def calib_mode_def ref_tissue_type_def
  ref_t1_def ref_t2_def blood_t2_def

lemmas examples = example_env_def example_input_def example_analysis_def example_distcorr_def
  example_calibration_def example_gui_def

lemma example_loads:
  "os_path_exists (example_env n) (data (input (example_gui pairs ord)))"
  "nib_load_shape (example_env n) (data (input (example_gui pairs ord))) = Inr [64, 64, 20, n]"
  "1 \<le> ntis (input (example_gui pairs ord))"
  "ntis (input (example_gui pairs ord)) = 3"
  "tc_pairs (input (example_gui pairs ord)) = pairs"
  by (simp_all add: examples getters)

text \<open>
  10 volumes at 3 timing points without pairs fail; 12 volumes give 4 repeats; 24
  volumes with pairs give 4 repeats.
\<close>

theorem volume_count_check_witness:
  "fst (get_run_sequence (example_env 10) (example_gui False ''trp'')) =
     Inl (RuntimeError
            ''Input data contains 10 volumes - not consistent with 3 TIs and TC pairs=False'')
   \<and> n_repeats (order_preview (snd (get_run_sequence (example_env 12) (example_gui False ''trp'')))) = 4
   \<and> nrepeats_label (snd (get_run_sequence (example_env 12) (example_gui False ''trp''))) = ''4''
   \<and> n_repeats (order_preview (snd (get_run_sequence (example_env 24) (example_gui True ''trp'')))) = 4"
proof -
  have a: "nvols_per_repeat (input (example_gui False ''trp'')) = 3"
    and b: "nvols_per_repeat (input (example_gui True ''trp'')) = 6"
    by (simp_all add: nvols_per_repeat_def example_loads)
  have s: "str_int 10 = ''10''" "str_int 3 = ''3''" "str_int 4 = ''4''" "str_bool False = ''False''"
    by (simp_all add: str_int_def str_nat.simps str_bool_def)
  note t10 = volume_count_check [where e = "example_env 10" and g = "example_gui False ''trp''",
      OF example_loads(1,2,3)]
  note t12 = volume_count_check [where e = "example_env 12" and g = "example_gui False ''trp''",
      OF example_loads(1,2,3)]
  note t24 = volume_count_check [where e = "example_env 24" and g = "example_gui True ''trp''",
      OF example_loads(1,2,3)]
  have "fst (get_run_sequence (example_env 10) (example_gui False ''trp'')) =
     Inl (RuntimeError
            ''Input data contains 10 volumes - not consistent with 3 TIs and TC pairs=False'')"
    using t10 by (simp add: a s example_loads)
  moreover have "n_repeats (order_preview (snd (get_run_sequence (example_env 12) (example_gui False ''trp'')))) = 4
     \<and> nrepeats_label (snd (get_run_sequence (example_env 12) (example_gui False ''trp''))) = ''4''"
    using t12 by (simp add: a s example_loads)
  moreover have "n_repeats (order_preview (snd (get_run_sequence (example_env 24) (example_gui True ''trp'')))) = 4"
    using t24 by (simp add: b s example_loads)
  ultimately show ?thesis by simp
qed

text \<open>
  The example configuration with calibration on and saturation recovery chosen.
\<close>

theorem saturation_recovery_fails_witness:
  "calib (calibration example_saturation) \<and> m0_type (calibration example_saturation) \<noteq> 0
   \<and> isl (fst (get_run_sequence (example_env 24) example_saturation))"
proof -
  have a: "calib (calibration example_saturation)"
    and b: "m0_type (calibration example_saturation) \<noteq> 0"
    by (simp_all add: example_saturation_def examples getters)
  from saturation_recovery_fails [OF a b] a b show ?thesis by simp
qed

lemma replicate_3: "replicate 3 x = [x, x, x]"
  by (simp add: numeral_3_eq_3)

lemmas flag_defs = all_flags_def main_flags_def transform_flags_def structural_flags_def
  structural_cmds_def readout_flags_def distcorr_flags_def calibration_flags_def

lemmas ok_defs = mask_ok_def transform_ok_def structural_ok_def distcorr_ok_def
  calibration_ok_def

lemmas option_getters = mask_def fsl_anat_def struc_image_def struc_image_brain_def falsy_def
  ref_tissue_mask_def coil_image_def ref_tissue_type_name_def

lemmas fmt_defs = decimal_fmt_def round_half_even_def zfill_def str_nat.simps str_int_def
  bool_int_def str_bool_def quoted_def lower_def lower_char_def

lemma example_white_paper_run:
  "fst (get_run_sequence (example_env 24) (AslCalibration_update example_white_paper)) =
     Inr [\<lparr>prog = ''oxford_asl'',
           opts = ['' -i \"/d/asl.nii\"'', ''-o \"/out\"'', ''--ibf=tis --iaf=tcb'',
                   ''--tis 2.05,2.30,2.80'', ''--bolus 1.80'', ''--wp'', ''--t1b 1.65'',
                   ''--alpha 0.85'', ''--spatial=1'', ''--fixbolus=1'', ''--mc=0'', ''--artoff'',
                   ''--casl'', ''-c \"/d/calib.nii\"'', ''--tr 6.00'', ''--cgain 1.00'',
                   ''--cmethod voxel'']\<rparr>]"
proof -
  let ?e = "example_env 24"
  let ?g = "(example_gui True ''trp'')
       \<lparr>analysis := example_analysis\<lparr>wp_cb := True\<rparr>,
        calibration := example_calibration\<lparr>calib_cb := True, calib_mode_ch := 1\<rparr>\<rparr>"
  have g: "AslCalibration_update example_white_paper = ?g"
    by (simp add: AslCalibration_update_def example_white_paper_def wp_def)
  have r: "fst (get_run_sequence ?e ?g) =
           Inr (structural_cmds ?e ?g (outdir (analysis ?g))
                @ [(FslCmd_init ?e ''oxford_asl'')
                     \<lparr>opts := all_flags ?e ?g (outdir (analysis ?g)) ''--ibf=tis --iaf=tcb''
                                [205 / 100, 23 / 10, 28 / 10] [18 / 10]\<rparr>])"
    by (rule get_run_sequence_ok [where shape = "[64, 64, 20, 24]"])
       (simp_all add: examples getters option_getters ok_defs nvols_per_repeat_def
          order_key_def data_order_def order_opts_def tis_def bolus_dur_def GetValues_def
          replicate_3 Let_def)
  have v: "structural_cmds ?e ?g (outdir (analysis ?g))
                @ [(FslCmd_init ?e ''oxford_asl'')
                     \<lparr>opts := all_flags ?e ?g (outdir (analysis ?g)) ''--ibf=tis --iaf=tcb''
                                [205 / 100, 23 / 10, 28 / 10] [18 / 10]\<rparr>] =
           [\<lparr>prog = ''oxford_asl'',
           opts = ['' -i \"/d/asl.nii\"'', ''-o \"/out\"'', ''--ibf=tis --iaf=tcb'',
                   ''--tis 2.05,2.30,2.80'', ''--bolus 1.80'', ''--wp'', ''--t1b 1.65'',
                   ''--alpha 0.85'', ''--spatial=1'', ''--fixbolus=1'', ''--mc=0'', ''--artoff'',
                   ''--casl'', ''-c \"/d/calib.nii\"'', ''--tr 6.00'', ''--cgain 1.00'',
                   ''--cmethod voxel'']\<rparr>]"
    by (simp add: examples getters option_getters flag_defs FslCmd_init_def os_path_join_def
          fmt_defs Let_def)
  show ?thesis by (simp only: g r v)
qed

lemma order_opts_keys: "length order_opts = 10" "distinct (map fst order_opts)"
  by (simp_all add: order_opts_def)

lemma get_data_order_options_Some:
  assumes "map_of order_opts (order_key g) = Some v"
  shows "get_data_order_options g = Inr (v, if tc_pairs (input g) then ''--diff'' else [])"
  using assms by (simp add: get_data_order_options_def Let_def)

lemma get_data_order_options_None:
  assumes "map_of order_opts (order_key g) = None"
  shows "get_data_order_options g =
           Inl (RuntimeError ''This data ordering is not supported by ASL_FILE'')"
  using assms by (simp add: get_data_order_options_def Let_def)

lemma main_options_order_error:
  assumes "get_data_order_options g = Inl x"
  shows "main_options e g out = Inl x"
  using assms by (simp add: main_options_def Let_def)

lemma build_run_order_error:
  assumes "get_data_order_options g = Inl x"
  shows "build_run e g = (if outdir (analysis g) = []
                          then Inl (RuntimeError ''Output directory not specified'') else Inl x)"
  by (simp add: build_run_def check_outdir_def Let_def main_options_order_error [OF assms])

text \<open>
  C1, as amended. The table has 10 entries with distinct keys. For every entry, a
  configuration whose key is the entry's key gets the entry's flag string (with
  \<^verbatim>\<open>--diff\<close> as second component under tag-control pairs). For a key outside the table
  \<^verbatim>\<open>get_data_order_options\<close> raises \<^verbatim>\<open>RuntimeError\<close> with the fixed message
  \<^verbatim>\<open>This data ordering is not supported by ASL_FILE\<close>, and \<^verbatim>\<open>get_run_sequence\<close> then
  returns no commands: it raises, and what it raises is this error whenever the checks of
  the input data pass and an output directory is given.
\<close>

theorem order_lookup:
  "length order_opts = 10 \<and> distinct (map fst order_opts)
   \<and> (\<forall>(k, v) \<in> set order_opts.
         order_key g = k \<longrightarrow>
         get_data_order_options g = Inr (v, if tc_pairs (input g) then ''--diff'' else []))
   \<and> (order_key g \<notin> fst ` set order_opts \<longrightarrow>
         get_data_order_options g =
           Inl (RuntimeError ''This data ordering is not supported by ASL_FILE''))
   \<and> (order_key (snd (check_input_data e g)) \<notin> fst ` set order_opts \<longrightarrow>
         isl (fst (get_run_sequence e g))
         \<and> (fst (check_input_data e g) = Inr () \<and> outdir (analysis g) \<noteq> [] \<longrightarrow>
              fst (get_run_sequence e g) =
                Inl (RuntimeError ''This data ordering is not supported by ASL_FILE'')))"
proof (intro conjI)
  show "length order_opts = 10" by (rule order_opts_keys)
  show "distinct (map fst order_opts)" by (rule order_opts_keys)
  show "\<forall>(k, v) \<in> set order_opts.
         order_key g = k \<longrightarrow>
         get_data_order_options g = Inr (v, if tc_pairs (input g) then ''--diff'' else [])"
  proof (intro ballI, unfold split_paired_all prod.case, rule impI)
    fix k v
    assume "(k, v) \<in> set order_opts" and k: "order_key g = k"
    with order_opts_keys(2) have "map_of order_opts k = Some v" by (simp only: map_of_is_SomeI)
    then show "get_data_order_options g = Inr (v, if tc_pairs (input g) then ''--diff'' else [])"
      unfolding k [symmetric] by (rule get_data_order_options_Some)
  qed
  show "order_key g \<notin> fst ` set order_opts \<longrightarrow>
         get_data_order_options g =
           Inl (RuntimeError ''This data ordering is not supported by ASL_FILE'')"
  proof (rule impI)
    assume "order_key g \<notin> fst ` set order_opts"
    then have "map_of order_opts (order_key g) = None" by (simp add: map_of_eq_None_iff)
    then show "get_data_order_options g =
           Inl (RuntimeError ''This data ordering is not supported by ASL_FILE'')"
      by (rule get_data_order_options_None)
  qed
  let ?g = "snd (check_input_data e g)"
  let ?err = "Inl (RuntimeError ''This data ordering is not supported by ASL_FILE'')"
  show "order_key ?g \<notin> fst ` set order_opts \<longrightarrow>
         isl (fst (get_run_sequence e g))
         \<and> (fst (check_input_data e g) = Inr () \<and> outdir (analysis g) \<noteq> [] \<longrightarrow>
              fst (get_run_sequence e g) = ?err)"
  proof (rule impI)
    assume "order_key ?g \<notin> fst ` set order_opts"
    then have "map_of order_opts (order_key ?g) = None" by (simp add: map_of_eq_None_iff)
    then have "get_data_order_options ?g = ?err" by (rule get_data_order_options_None)
    note b = build_run_order_error [OF this, of e]
    have 1: "isl (fst (get_run_sequence e g))"
      unfolding get_run_sequence_eq(1) b
      by (cases "fst (check_input_data e g)") simp_all
    have 2: "fst (check_input_data e g) = Inr () \<and> outdir (analysis g) \<noteq> [] \<longrightarrow>
              fst (get_run_sequence e g) = ?err"
      unfolding get_run_sequence_eq(1) b
      by (simp add: check_input_data_tabs)
    from 1 2 show "isl (fst (get_run_sequence e g))
         \<and> (fst (check_input_data e g) = Inr () \<and> outdir (analysis g) \<noteq> [] \<longrightarrow>
              fst (get_run_sequence e g) = ?err)"
      by (rule conjI)
  qed
qed

text \<open>
  C1 as stated fails where it says that the diagnostic names the unsupported ordering:
  for the order tpr with pairs the message does not contain the order string, and it is
  the same message as for the order rpt.
\<close>

theorem order_diagnostic_counterexample:
  "get_data_order_options (example_gui True ''tpr'') =
     Inl (RuntimeError ''This data ordering is not supported by ASL_FILE'')
   \<and> \<not> sublist ''tpr'' ''This data ordering is not supported by ASL_FILE''
   \<and> get_data_order_options (example_gui True ''rpt'') =
     Inl (RuntimeError ''This data ordering is not supported by ASL_FILE'')"
  by (simp add: get_data_order_options_def order_key_def data_order_def order_opts_def
        examples getters Let_def sublist_Cons_right)

lemma all_flags_nth:
  "all_flags e g out v ts bs ! 2 = v"
  "all_flags e g out v ts bs ! 3 = ''--tis '' @ join '','' (map (float_fmt e 2) ts)"
  by (simp_all add: all_flags_def main_flags_def)

lemma all_flags_no_diff: "other_flag v \<Longrightarrow> \<forall>x \<in> set (all_flags e g out v ts bs). x \<noteq> ''--diff''"
proof (rule all_flags_ball)
  assume ov: "other_flag v"
  show "\<forall>x \<in> set (main_flags e g out v ts bs). x \<noteq> ''--diff''"
    by (rule list_all_ball [OF main_flags_plain [OF ov]]) simp
  show "\<forall>x \<in> set (transform_flags g @ structural_flags g out @ readout_flags e g
                  @ distcorr_flags e g). x \<noteq> ''--diff''"
    by (rule list_all_ball [OF middle_flags_other]) (simp add: other_flag_def)
  show "\<forall>x \<in> set (calibration_flags e g). x \<noteq> ''--diff''"
    by (rule list_all_ball [OF calibration_flags_plain]) simp
qed

lemma get_preview_cmd_Inr:
  assumes "get_data_order_options g = Inr (v, d)"
  shows "\<exists>c. get_preview_cmd e g tempdir = Inr c \<and> last (opts c) = v @ '' '' @ d"
  using assms by (simp add: get_preview_cmd_def Let_def add_def)

text \<open>
  C2, as amended. With tag-control pairs on and a run that succeeds,
  \<^verbatim>\<open>get_data_order_options\<close> returns the table's flag string together with \<^verbatim>\<open>--diff\<close>, but
  the main command is given the flag string alone (its third option) and has no option
  \<^verbatim>\<open>--diff\<close>; the flag is appended in the \<^verbatim>\<open>asl_file\<close> command of the data preview.
\<close>

theorem diff_flag_only_in_preview:
  assumes "tc_pairs (input g)" and "fst (get_run_sequence e g) = Inr run"
  shows "\<exists>v. map_of order_opts (order_key (snd (get_run_sequence e g))) = Some v
           \<and> get_data_order_options (snd (get_run_sequence e g)) = Inr (v, ''--diff'')
           \<and> opts (last run) ! 2 = v
           \<and> (\<forall>x \<in> set (opts (last run)). x \<noteq> ''--diff'')
           \<and> (\<exists>c. get_preview_cmd e (snd (get_run_sequence e g)) tempdir = Inr c
                    \<and> last (opts c) = v @ '' --diff'')"
proof -
  let ?g = "snd (get_run_sequence e g)"
  have s: "?g = snd (check_input_data e g)" by (rule get_run_sequence_eq)
  from assms(2) obtain v ts bs where
    v: "map_of order_opts (order_key (snd (check_input_data e g))) = Some v"
    and run: "run = structural_cmds e g (outdir (analysis g))
                @ [(FslCmd_init e ''oxford_asl'')
                     \<lparr>opts := all_flags e g (outdir (analysis g)) v ts bs\<rparr>]"
    by (rule get_run_sequence_flags)
  have o: "opts (last run) = all_flags e g (outdir (analysis g)) v ts bs"
    by (simp add: run)
  have ov: "other_flag v"
    using order_opts_other order_opts_values [OF v] by (rule list_allD)
  have p: "tc_pairs (input ?g)" using assms(1) by (simp add: s check_input_data_tabs)
  have 1: "map_of order_opts (order_key ?g) = Some v" using v by (simp only: s)
  have 2: "get_data_order_options ?g = Inr (v, ''--diff'')"
    using get_data_order_options_Some [OF 1] p by simp
  have 3: "opts (last run) ! 2 = v" unfolding o by (rule all_flags_nth)
  have 4: "\<forall>x \<in> set (opts (last run)). x \<noteq> ''--diff''"
    unfolding o using ov by (rule all_flags_no_diff)
  have 5: "\<exists>c. get_preview_cmd e ?g tempdir = Inr c \<and> last (opts c) = v @ '' --diff''"
    using get_preview_cmd_Inr [OF 2, of e tempdir] by simp
  from 1 2 3 4 5 show ?thesis by (intro exI [of _ v] conjI)
qed

lemma tis_Inr:
  assumes "tis e i = Inr ts"
  obtains plds where "GetValues (ti_list i) = Inr plds"
    and "labelling i \<noteq> 1 \<longrightarrow> ts = plds"
    and "\<forall>bds. labelling i = 1 \<longrightarrow> bolus_dur i = Inr bds \<longrightarrow>
           ts = map (\<lambda>(pld, bd). float_add e pld bd)
                  (zip plds (if length bds = 1 then concat (replicate (nat (ntis i)) bds) else bds))"
proof (cases "GetValues (ti_list i)")
  case (Inl x)
  with assms show ?thesis by (simp add: tis_def)
next
  case (Inr plds)
  show ?thesis
  proof (rule that [of plds])
    show "GetValues (ti_list i) = Inr plds" by (rule Inr)
    show "labelling i \<noteq> 1 \<longrightarrow> ts = plds"
      using assms Inr by (auto simp add: tis_def split: if_splits)
    show "\<forall>bds. labelling i = 1 \<longrightarrow> bolus_dur i = Inr bds \<longrightarrow>
           ts = map (\<lambda>(pld, bd). float_add e pld bd)
                  (zip plds (if length bds = 1 then concat (replicate (nat (ntis i)) bds) else bds))"
      using assms Inr by (auto simp add: tis_def Let_def split: if_splits)
  qed
qed

lemma concat_replicate_single:
  assumes "length bds = 1"
  shows "concat (replicate n bds) = replicate n (bds ! 0)"
proof -
  from assms obtain b where b: "bds = [b]"
    by (cases bds) simp_all
  show ?thesis unfolding b by (induction n) simp_all
qed

text \<open>
  C9. In a run that succeeds, the fourth option of the main command is \<^verbatim>\<open>--tis\<close> followed
  by the values of \<^verbatim>\<open>tis()\<close>, each written with two decimals by \<^verbatim>\<open>"%.2f"\<close> and joined
  by commas. With cASL/pcASL labelling (choice 1), value \<open>k\<close> is the float sum of PLD \<open>k\<close>
  and bolus duration \<open>k\<close>, a single bolus duration standing for all timing points, and
  there are as many values as the shorter of the two lists; with any other labelling the
  values are the entered ones. The sum and the two-decimal text are those of the
  interpreter, whatever they are for the floats at hand.
\<close>

theorem tis_option:
  assumes "fst (get_run_sequence e g) = Inr run"
  shows "\<exists>plds ts bds.
           GetValues (ti_list (input g)) = Inr plds \<and> tis e (input g) = Inr ts
           \<and> bolus_dur (input g) = Inr bds
           \<and> opts (last run) ! 3 = ''--tis '' @ join '','' (map (float_fmt e 2) ts)
           \<and> (labelling (input g) = 1 \<longrightarrow>
                length ts = min (length plds)
                              (if length bds = 1 then nat (ntis (input g)) else length bds)
                \<and> (\<forall>k < length ts.
                      ts ! k = float_add e (plds ! k) (if length bds = 1 then bds ! 0 else bds ! k)))
           \<and> (labelling (input g) \<noteq> 1 \<longrightarrow> ts = plds)"
proof -
  from assms obtain v ts bs where
    ts: "tis e (input g) = Inr ts" and bs: "bolus_dur (input g) = Inr bs"
    and run: "run = structural_cmds e g (outdir (analysis g))
                @ [(FslCmd_init e ''oxford_asl'')
                     \<lparr>opts := all_flags e g (outdir (analysis g)) v ts bs\<rparr>]"
    by (rule get_run_sequence_flags)
  have o: "opts (last run) = all_flags e g (outdir (analysis g)) v ts bs"
    by (simp add: run)
  from ts obtain plds where
    p: "GetValues (ti_list (input g)) = Inr plds"
    and n: "labelling (input g) \<noteq> 1 \<longrightarrow> ts = plds"
    and c: "\<forall>bds. labelling (input g) = 1 \<longrightarrow> bolus_dur (input g) = Inr bds \<longrightarrow>
           ts = map (\<lambda>(pld, bd). float_add e pld bd)
                  (zip plds (if length bds = 1
                             then concat (replicate (nat (ntis (input g))) bds) else bds))"
    by (rule tis_Inr)
  have 3: "opts (last run) ! 3 = ''--tis '' @ join '','' (map (float_fmt e 2) ts)"
    unfolding o by (rule all_flags_nth)
  have 4: "labelling (input g) = 1 \<longrightarrow>
                length ts = min (length plds)
                              (if length bs = 1 then nat (ntis (input g)) else length bs)
                \<and> (\<forall>k < length ts.
                      ts ! k = float_add e (plds ! k) (if length bs = 1 then bs ! 0 else bs ! k))"
  proof (rule impI)
    assume l: "labelling (input g) = 1"
    have eq: "ts = map (\<lambda>(pld, bd). float_add e pld bd)
                  (zip plds (if length bs = 1
                             then concat (replicate (nat (ntis (input g))) bs) else bs))"
      using c l bs by simp
    show "length ts = min (length plds)
                              (if length bs = 1 then nat (ntis (input g)) else length bs)
                \<and> (\<forall>k < length ts.
                      ts ! k = float_add e (plds ! k) (if length bs = 1 then bs ! 0 else bs ! k))"
    proof (cases "length bs = 1")
      case True
      have "ts = map (\<lambda>(pld, bd). float_add e pld bd) (zip plds (replicate (nat (ntis (input g))) (bs ! 0)))"
        using eq True by (simp add: concat_replicate_single)
      then show ?thesis using True by simp
    next
      case False
      have "ts = map (\<lambda>(pld, bd). float_add e pld bd) (zip plds bs)"
        using eq False by simp
      then show ?thesis using False by simp
    qed
  qed
  note 5 = n
  from p ts bs 3 4 5 show ?thesis by (intro exI [of _ plds] exI [of _ ts] exI [of _ bs] conjI)
qed

lemma example_pairs_run:
  "fst (get_run_sequence (example_env 24) (example_gui True ''trp'')) = Inr [example_pairs_cmd]"
proof -
  let ?e = "example_env 24"
  let ?g = "example_gui True ''trp''"
  have r: "fst (get_run_sequence ?e ?g) =
           Inr (structural_cmds ?e ?g (outdir (analysis ?g))
                @ [(FslCmd_init ?e ''oxford_asl'')
                     \<lparr>opts := all_flags ?e ?g (outdir (analysis ?g)) ''--ibf=tis --iaf=tcb''
                                [205 / 100, 23 / 10, 28 / 10] [18 / 10]\<rparr>])"
    by (rule get_run_sequence_ok [where shape = "[64, 64, 20, 24]"])
       (simp_all add: examples getters option_getters ok_defs nvols_per_repeat_def
          order_key_def data_order_def order_opts_def tis_def bolus_dur_def GetValues_def
          replicate_3 Let_def)
  have v: "structural_cmds ?e ?g (outdir (analysis ?g))
                @ [(FslCmd_init ?e ''oxford_asl'')
                     \<lparr>opts := all_flags ?e ?g (outdir (analysis ?g)) ''--ibf=tis --iaf=tcb''
                                [205 / 100, 23 / 10, 28 / 10] [18 / 10]\<rparr>] =
           [example_pairs_cmd]"
    by (simp add: examples getters option_getters flag_defs FslCmd_init_def os_path_join_def
          fmt_defs Let_def example_pairs_cmd_def)
  show ?thesis by (simp only: r v)
qed

lemma example_structural_eval:
  "fst (get_run_sequence (example_env 24) example_structural) = Inr example_structural_run"
proof -
  let ?e = "example_env 24"
  let ?g = "(example_gui True ''trp'')
       \<lparr>input := (example_input True)
          \<lparr>struc_image_picker_checkbox := True, struc_image_picker := ''/d/struc.nii'',
           struc_image_ch := 1\<rparr>\<rparr>"
  have r: "fst (get_run_sequence ?e ?g) =
           Inr (structural_cmds ?e ?g (outdir (analysis ?g))
                @ [(FslCmd_init ?e ''oxford_asl'')
                     \<lparr>opts := all_flags ?e ?g (outdir (analysis ?g)) ''--ibf=tis --iaf=tcb''
                                [205 / 100, 23 / 10, 28 / 10] [18 / 10]\<rparr>])"
    by (rule get_run_sequence_ok [where shape = "[64, 64, 20, 24]"])
       (simp_all add: examples getters option_getters ok_defs nvols_per_repeat_def
          order_key_def data_order_def order_opts_def tis_def bolus_dur_def GetValues_def
          replicate_3 Let_def)
  have v: "structural_cmds ?e ?g (outdir (analysis ?g))
                @ [(FslCmd_init ?e ''oxford_asl'')
                     \<lparr>opts := all_flags ?e ?g (outdir (analysis ?g)) ''--ibf=tis --iaf=tcb''
                                [205 / 100, 23 / 10, 28 / 10] [18 / 10]\<rparr>] =
           example_structural_run"
    by (simp add: examples getters option_getters flag_defs FslCmd_init_def os_path_join_def
          fmt_defs Let_def example_structural_run_def add_def)
  show ?thesis by (simp only: example_structural_def r v)
qed

text \<open>
  White paper mode with calibration on and the calibration mode at 0 before the update.
\<close>

theorem white_paper_flags_witness:
  "fst (get_run_sequence (example_env 24) (AslCalibration_update example_white_paper)) =
     Inr [example_white_paper_cmd]
   \<and> wp (analysis example_white_paper) \<and> calib (calibration example_white_paper)
   \<and> calib_mode (calibration example_white_paper) = 0
   \<and> ''--wp'' \<in> set (opts (last [example_white_paper_cmd]))
   \<and> list_all (\<lambda>x. \<not> prefix ''--t1 '' x \<and> \<not> prefix ''--bat '' x)
         (opts (last [example_white_paper_cmd]))
   \<and> ''--cmethod voxel'' \<in> set (opts (last [example_white_paper_cmd]))"
proof -
  have w: "wp (analysis example_white_paper)" and c: "calib (calibration example_white_paper)"
    and m: "calib_mode (calibration example_white_paper) = 0"
    by (simp_all add: example_white_paper_def examples getters)
  note r = example_white_paper_run [folded example_white_paper_cmd_def]
  note t = white_paper_flags [OF r, THEN conjunct1, THEN mp, OF w]
  note t1 = t [THEN conjunct1]
  note t2 = t [THEN conjunct2, THEN conjunct1, folded list_all_iff]
  note t3 = t [THEN conjunct2, THEN conjunct2, THEN mp, OF c, THEN conjunct1]
  from r w c m t1 t2 t3 show ?thesis by (intro conjI)
qed

text \<open>
  The key \<^verbatim>\<open>trp,tc\<close> is in the table; the key \<^verbatim>\<open>tpr,tc\<close> is not.
\<close>

theorem order_lookup_witness:
  "(''trp,tc'', ''--ibf=tis --iaf=tcb'') \<in> set order_opts
   \<and> order_key (example_gui True ''trp'') = ''trp,tc''
   \<and> get_data_order_options (example_gui True ''trp'') = Inr (''--ibf=tis --iaf=tcb'', ''--diff'')
   \<and> order_key (example_gui True ''tpr'') \<notin> fst ` set order_opts
   \<and> get_data_order_options (example_gui True ''tpr'') =
       Inl (RuntimeError ''This data ordering is not supported by ASL_FILE'')
   \<and> fst (get_run_sequence (example_env 24) (example_gui True ''tpr'')) =
       Inl (RuntimeError ''This data ordering is not supported by ASL_FILE'')"
proof -
  let ?a = "example_gui True ''trp''" and ?b = "example_gui True ''tpr''"
  have 1: "(''trp,tc'', ''--ibf=tis --iaf=tcb'') \<in> set order_opts"
    by (simp add: order_opts_def)
  have 2: "order_key ?a = ''trp,tc''"
    by (simp add: order_key_def data_order_def examples getters)
  have p: "tc_pairs (input ?a)" by (simp add: examples getters)
  have 3: "order_key ?b \<notin> fst ` set order_opts"
    by (simp add: order_key_def data_order_def examples getters order_opts_def)
  have c: "check_input_data (example_env 24) ?b =
             (Inr (), ?b\<lparr>nrepeats_label := ''4'',
                        order_preview := \<lparr>n_tis = 3, n_repeats = 4, pv_tc_pairs = True,
                                           pv_tagfirst = True, pv_order = ''tpr''\<rparr>\<rparr>)"
    by (simp add: check_input_data_def check_exists_def examples getters Let_def str_int_def
          str_nat.simps)
  have 4: "order_key (snd (check_input_data (example_env 24) ?b)) \<notin> fst ` set order_opts"
    unfolding c by (simp add: order_key_def data_order_def examples getters order_opts_def)
  have 5: "fst (check_input_data (example_env 24) ?b) = Inr ()" by (simp only: c fst_conv)
  have 6: "outdir (analysis ?b) \<noteq> []" by (simp add: examples getters)
  note t = order_lookup [of ?a "example_env 24"]
  note u = order_lookup [of ?b "example_env 24"]
  have A: "get_data_order_options ?a = Inr (''--ibf=tis --iaf=tcb'', ''--diff'')"
    using t [THEN conjunct2, THEN conjunct2, THEN conjunct1, THEN bspec, OF 1] 2 p by simp
  have B: "get_data_order_options ?b =
       Inl (RuntimeError ''This data ordering is not supported by ASL_FILE'')"
    by (rule u [THEN conjunct2, THEN conjunct2, THEN conjunct2, THEN conjunct1, THEN mp, OF 3])
  have C: "fst (get_run_sequence (example_env 24) ?b) =
       Inl (RuntimeError ''This data ordering is not supported by ASL_FILE'')"
    by (rule u [THEN conjunct2, THEN conjunct2, THEN conjunct2, THEN conjunct2, THEN mp, OF 4,
                THEN conjunct2, THEN mp, OF conjI [OF 5 6]])
  from 1 2 A 3 B C show ?thesis by (intro conjI)
qed

text \<open>
  C2 as stated fails: with pairs on, the example run succeeds and its main command has
  no \<^verbatim>\<open>--diff\<close>, neither as an option nor anywhere in the command string.
\<close>

theorem diff_flag_counterexample:
  "tc_pairs (input (example_gui True ''trp''))
   \<and> fst (get_run_sequence (example_env 24) (example_gui True ''trp'')) = Inr [example_pairs_cmd]
   \<and> ''--diff'' \<notin> set (opts example_pairs_cmd)
   \<and> \<not> sublist ''--diff'' (FslCmd_str example_pairs_cmd)"
proof -
  have 1: "tc_pairs (input (example_gui True ''trp''))" by (simp add: examples getters)
  have 2: "''--diff'' \<notin> set (opts example_pairs_cmd)" by (simp add: example_pairs_cmd_def)
  have 3: "\<not> sublist ''--diff'' (FslCmd_str example_pairs_cmd)"
    by (simp add: example_pairs_cmd_def FslCmd_str_def sublist_Cons_right)
  from 1 example_pairs_run 2 3 show ?thesis by (intro conjI)
qed

text \<open>
  The example with pairs on and order trp.
\<close>

theorem diff_flag_only_in_preview_witness:
  "tc_pairs (input (example_gui True ''trp''))
   \<and> fst (get_run_sequence (example_env 24) (example_gui True ''trp'')) = Inr [example_pairs_cmd]
   \<and> get_data_order_options (snd (get_run_sequence (example_env 24) (example_gui True ''trp'')))
       = Inr (''--ibf=tis --iaf=tcb'', ''--diff'')
   \<and> ''--diff'' \<notin> set (opts (last [example_pairs_cmd]))
   \<and> (\<exists>c. get_preview_cmd (example_env 24)
              (snd (get_run_sequence (example_env 24) (example_gui True ''trp''))) ''/tmp/x'' = Inr c
            \<and> last (opts c) = ''--ibf=tis --iaf=tcb --diff'')"
proof -
  let ?g = "snd (get_run_sequence (example_env 24) (example_gui True ''trp''))"
  have 1: "tc_pairs (input (example_gui True ''trp''))" by (simp add: examples getters)
  from diff_flag_only_in_preview [OF 1 example_pairs_run, of "''/tmp/x''"] obtain v c where
    k: "map_of order_opts (order_key ?g) = Some v"
    and b: "get_data_order_options ?g = Inr (v, ''--diff'')"
    and a: "opts (last [example_pairs_cmd]) ! 2 = v"
    and n: "\<forall>x \<in> set (opts (last [example_pairs_cmd])). x \<noteq> ''--diff''"
    and d: "get_preview_cmd (example_env 24) ?g ''/tmp/x'' = Inr c"
    and l: "last (opts c) = v @ '' --diff''"
    by (elim exE conjE) (rule that; assumption)
  have v: "v = ''--ibf=tis --iaf=tcb''"
    using a by (simp add: example_pairs_cmd_def)
  have l': "last (opts c) = ''--ibf=tis --iaf=tcb --diff''"
    using l by (simp add: v)
  from d l' have p: "\<exists>c. get_preview_cmd (example_env 24) ?g ''/tmp/x'' = Inr c
            \<and> last (opts c) = ''--ibf=tis --iaf=tcb --diff''"
    by (intro exI [of _ c] conjI)
  from n have n': "''--diff'' \<notin> set (opts (last [example_pairs_cmd]))" by auto
  from 1 example_pairs_run b [unfolded v] n' p show ?thesis by (intro conjI)
qed

text \<open>
  PLDs 0.25, 0.5 and 1 with a constant bolus duration of 1.8 give 2.05, 2.30 and 2.80,
  under the float operations of the examples.
\<close>

theorem tis_option_witness:
  "fst (get_run_sequence (example_env 24) (example_gui True ''trp'')) = Inr [example_pairs_cmd]
   \<and> labelling (input (example_gui True ''trp'')) = 1
   \<and> GetValues (ti_list (input (example_gui True ''trp''))) = Inr [1 / 4, 1 / 2, 1]
   \<and> bolus_dur (input (example_gui True ''trp'')) = Inr [18 / 10]
   \<and> tis (example_env 24) (input (example_gui True ''trp'')) = Inr [1 / 4 + 18 / 10, 1 / 2 + 18 / 10, 1 + 18 / 10]
   \<and> opts (last [example_pairs_cmd]) ! 3 = ''--tis 2.05,2.30,2.80''"
proof -
  let ?i = "input (example_gui True ''trp'')"
  have l: "labelling ?i = 1" by (simp add: examples getters)
  from tis_option [OF example_pairs_run] obtain plds ts bds where
    p: "GetValues (ti_list ?i) = Inr plds" and t: "tis (example_env 24) ?i = Inr ts"
    and b: "bolus_dur ?i = Inr bds"
    and o: "opts (last [example_pairs_cmd]) ! 3 = ''--tis '' @ join '','' (map (float_fmt (example_env 24) 2) ts)"
    and c: "labelling ?i = 1 \<longrightarrow>
              length ts = min (length plds) (if length bds = 1 then nat (ntis ?i) else length bds)
              \<and> (\<forall>k < length ts. ts ! k = float_add (example_env 24) (plds ! k)
                                        (if length bds = 1 then bds ! 0 else bds ! k))"
    and u: "labelling ?i \<noteq> 1 \<longrightarrow> ts = plds"
    by (elim exE conjE) (rule that; assumption)
  have P: "plds = [1 / 4, 1 / 2, 1]"
    using p by (simp add: GetValues_def examples)
  have B: "bds = [18 / 10]"
    using b by (simp add: bolus_dur_def examples getters)
  have n: "nat (ntis ?i) = 3" by (simp add: examples getters)
  from c l have len: "length ts = 3"
    and nth: "\<forall>k < length ts. ts ! k = plds ! k + bds ! 0"
    by (simp_all add: P B n example_env_def)
  have "ts = [ts ! 0, ts ! 1, ts ! 2]"
    using len by (simp add: list_eq_iff_nth_eq numeral_3_eq_3 numeral_2_eq_2 less_Suc_eq)
  also have "\<dots> = [1 / 4 + 18 / 10, 1 / 2 + 18 / 10, 1 + 18 / 10]"
    using nth len by (simp add: P B)
  finally have T: "ts = [1 / 4 + 18 / 10, 1 / 2 + 18 / 10, 1 + 18 / 10]" .
  have O: "opts (last [example_pairs_cmd]) ! 3 = ''--tis 2.05,2.30,2.80''"
    using o by (simp add: T fmt_defs example_env_def)
  from example_pairs_run l p [unfolded P] b [unfolded B] t [unfolded T] O
  show ?thesis by (intro conjI)
qed

lemma build_run_structural_ok:
  assumes "build_run e g = Inr run"
  shows "structural_ok e g"
proof -
  let ?out = "outdir (analysis g)"
  have out: "check_outdir g = Inr ?out"
    using assms by (auto simp add: build_run_def check_outdir_def Let_def split: if_splits)
  from assms out obtain c1 where c1: "main_options e g ?out = Inr c1"
    by (cases "main_options e g ?out") (simp_all add: build_run_def)
  from assms out c1 obtain c2 where c2: "transform_options e g c1 = Inr c2"
    by (cases "transform_options e g c1") (simp_all add: build_run_def)
  from assms out c1 c2 obtain r3 where c3: "structural_image e g ?out [] c2 = Inr r3"
    by (cases "structural_image e g ?out [] c2") (simp_all add: build_run_def)
  then show ?thesis by (rule structural_image_Inr_ok)
qed

lemma structural_ok_tabs:
  "input g' = input g \<Longrightarrow> structural_ok e g' = structural_ok e g"
  by (simp add: structural_ok_def cong: option.case_cong if_cong)

lemma struc_image_no_fsl_anat:
  assumes "struc_image (input g) = Some s" and "structural_ok e g" and "\<not> os_path_exists e []"
  shows "fsl_anat (input g) = None"
proof (cases "fsl_anat (input g)")
  case None
  then show ?thesis .
next
  case (Some d)
  with assms(1) have "d = []"
    by (simp add: struc_image_def falsy_def split: if_splits)
  with assms(2,3) Some show ?thesis by (simp add: structural_ok_def)
qed

text \<open>
  C8, as amended. In a run that succeeds with a structural image \<open>s\<close> (and so without an
  FSL_ANAT directory), the commands are: \<^verbatim>\<open>imcp\<close> of \<open>s\<close> to \<^verbatim>\<open>structural_head\<close> in the
  output directory; then, when brain extraction is requested, \<^verbatim>\<open>bet\<close> on \<open>s\<close> itself
  (the image as supplied, not the copy) writing \<^verbatim>\<open>structural_brain\<close>, otherwise \<^verbatim>\<open>imcp\<close>
  of the brain image to \<^verbatim>\<open>structural_brain\<close>; then the main command, which refers to both
  staged paths.
\<close>

theorem structural_staging:
  assumes "fst (get_run_sequence e g) = Inr run" and "struc_image (input g) = Some s"
    and "\<not> os_path_exists e []"
  shows "\<exists>main.
           run = [add (add (FslCmd_init e ''imcp'') (quoted s))
                      (quoted (outdir (analysis g) @ ''/structural_head'')),
                  if struc_image_bet (input g) = 1
                  then add (add (FslCmd_init e ''bet'') (quoted s))
                           (quoted (outdir (analysis g) @ ''/structural_brain''))
                  else add (add (FslCmd_init e ''imcp'')
                                (quoted (struc_image_brain_picker (input g))))
                           (quoted (outdir (analysis g) @ ''/structural_brain'')),
                  main]
           \<and> prog main = prog (FslCmd_init e ''oxford_asl'')
           \<and> ''--s '' @ quoted (outdir (analysis g) @ ''/structural_head'') \<in> set (opts main)
           \<and> ''--sbrain '' @ quoted (outdir (analysis g) @ ''/structural_brain'')
                \<in> set (opts main)"
proof -
  let ?out = "outdir (analysis g)"
  from assms(1) have "build_run e (snd (check_input_data e g)) = Inr run"
    by (rule get_run_sequence_Inr)
  then have "structural_ok e (snd (check_input_data e g))"
    by (rule build_run_structural_ok)
  then have ok: "structural_ok e g"
    by (simp add: structural_ok_tabs [OF check_input_data_tabs(1)])
  have f: "fsl_anat (input g) = None"
    using assms(2) ok assms(3) by (rule struc_image_no_fsl_anat)
  from assms(1) obtain v ts bs where
    run: "run = structural_cmds e g ?out
                @ [(FslCmd_init e ''oxford_asl'')\<lparr>opts := all_flags e g ?out v ts bs\<rparr>]"
    by (rule get_run_sequence_flags)
  let ?main = "(FslCmd_init e ''oxford_asl'')\<lparr>opts := all_flags e g ?out v ts bs\<rparr>"
  have 1: "run = [add (add (FslCmd_init e ''imcp'') (quoted s))
                      (quoted (?out @ ''/structural_head'')),
                  if struc_image_bet (input g) = 1
                  then add (add (FslCmd_init e ''bet'') (quoted s))
                           (quoted (?out @ ''/structural_brain''))
                  else add (add (FslCmd_init e ''imcp'')
                                (quoted (struc_image_brain_picker (input g))))
                           (quoted (?out @ ''/structural_brain'')),
                  ?main]"
    unfolding run by (simp add: structural_cmds_def f assms(2))
  have 2: "prog ?main = prog (FslCmd_init e ''oxford_asl'')" by simp
  have s: "structural_flags g ?out = [''--s '' @ quoted (?out @ ''/structural_head''),
                                      ''--sbrain '' @ quoted (?out @ ''/structural_brain'')]"
    by (simp add: structural_flags_def f assms(2))
  have 3: "''--s '' @ quoted (?out @ ''/structural_head'') \<in> set (opts ?main)"
    and 4: "''--sbrain '' @ quoted (?out @ ''/structural_brain'') \<in> set (opts ?main)"
    by (simp_all add: set_all_flags s)
  from 1 2 3 4 show ?thesis by (intro exI [of _ ?main] conjI)
qed

text \<open>
  C8 as stated fails where it says that brain extraction operates on the copied image:
  the argument of \<^verbatim>\<open>bet\<close> is the path of the structural image as supplied, and the staged
  copy is not among its arguments.
\<close>

theorem bet_input_counterexample:
  "struc_image (input example_structural) = Some ''/d/struc.nii''
   \<and> struc_image_bet (input example_structural) = 1
   \<and> fst (get_run_sequence (example_env 24) example_structural) = Inr example_structural_run
   \<and> example_structural_run ! 1 =
       \<lparr>prog = ''bet'', opts = [''\"/d/struc.nii\"'', ''\"/out/structural_brain\"'']\<rparr>
   \<and> ''\"/out/structural_head\"'' \<notin> set (opts (example_structural_run ! 1))"
proof -
  have 1: "struc_image (input example_structural) = Some ''/d/struc.nii''"
    and 2: "struc_image_bet (input example_structural) = 1"
    by (simp_all add: example_structural_def examples getters option_getters)
  have 3: "example_structural_run ! 1 =
       \<lparr>prog = ''bet'', opts = [''\"/d/struc.nii\"'', ''\"/out/structural_brain\"'']\<rparr>"
    and 4: "''\"/out/structural_head\"'' \<notin> set (opts (example_structural_run ! 1))"
    by (simp_all add: example_structural_run_def)
  from 1 2 example_structural_eval 3 4 show ?thesis by (intro conjI)
qed

text \<open>
  The example with a structural image and brain extraction requested.
\<close>

theorem structural_staging_witness:
  "fst (get_run_sequence (example_env 24) example_structural) = Inr example_structural_run
   \<and> struc_image (input example_structural) = Some ''/d/struc.nii''
   \<and> \<not> os_path_exists (example_env 24) []
   \<and> example_structural_run ! 0 =
       \<lparr>prog = ''imcp'', opts = [''\"/d/struc.nii\"'', ''\"/out/structural_head\"'']\<rparr>
   \<and> example_structural_run ! 1 =
       \<lparr>prog = ''bet'', opts = [''\"/d/struc.nii\"'', ''\"/out/structural_brain\"'']\<rparr>
   \<and> prog (example_structural_run ! 2) = ''oxford_asl''"
proof -
  let ?e = "example_env 24"
  have 1: "struc_image (input example_structural) = Some ''/d/struc.nii''"
    and 2: "\<not> os_path_exists ?e []"
    and b: "struc_image_bet (input example_structural) = 1"
    and o: "outdir (analysis example_structural) = ''/out''"
    by (simp_all add: example_structural_def examples getters option_getters)
  from structural_staging [OF example_structural_eval 1 2] obtain main where
    r: "example_structural_run =
          [add (add (FslCmd_init ?e ''imcp'') (quoted ''/d/struc.nii''))
               (quoted (outdir (analysis example_structural) @ ''/structural_head'')),
           if struc_image_bet (input example_structural) = 1
           then add (add (FslCmd_init ?e ''bet'') (quoted ''/d/struc.nii''))
                    (quoted (outdir (analysis example_structural) @ ''/structural_brain''))
           else add (add (FslCmd_init ?e ''imcp'')
                         (quoted (struc_image_brain_picker (input example_structural))))
                    (quoted (outdir (analysis example_structural) @ ''/structural_brain'')),
           main]"
    and p: "prog main = prog (FslCmd_init ?e ''oxford_asl'')"
    by (elim exE conjE) (rule that; assumption)
  have i: "FslCmd_init ?e ''imcp'' = \<lparr>prog = ''imcp'', opts = []\<rparr>"
    "FslCmd_init ?e ''bet'' = \<lparr>prog = ''bet'', opts = []\<rparr>"
    "prog (FslCmd_init ?e ''oxford_asl'') = ''oxford_asl''"
    by (simp_all add: FslCmd_init_def os_path_join_def examples)
  have 3: "example_structural_run ! 0 =
       \<lparr>prog = ''imcp'', opts = [''\"/d/struc.nii\"'', ''\"/out/structural_head\"'']\<rparr>"
    by (subst r) (simp add: i b o add_def quoted_def)
  have 4: "example_structural_run ! 1 =
       \<lparr>prog = ''bet'', opts = [''\"/d/struc.nii\"'', ''\"/out/structural_brain\"'']\<rparr>"
    by (subst r) (simp add: i b o add_def quoted_def)
  have 5: "prog (example_structural_run ! 2) = ''oxford_asl''"
    by (subst r) (simp add: i p)
  from example_structural_eval 1 2 3 4 5 show ?thesis by (intro conjI)
qed

lemma length_expand: "length (expand dp t i) = factor dp t"
  by (simp add: expand_def factor_def)

lemma length_expand_all: "length (expand_all dp t temp) = factor dp t * length temp"
  by (induction temp) (simp_all add: expand_all_def length_expand)

lemma length_foldl_expand:
  "length (foldl (\<lambda>seq t. expand_all dp t seq) s ts) = prod_list (map (factor dp) ts) * length s"
  by (induction ts arbitrary: s) (simp_all add: length_expand_all)

lemma length_paint_seq: "length (paint_seq dp) = prod_list (map (factor dp) (pv_order dp))"
proof -
  have "prod_list (map (factor dp) (rev (pv_order dp))) = prod_list (map (factor dp) (pv_order dp))"
    by (metis prod_list.rev rev_map)
  then show ?thesis by (simp add: paint_seq_def length_foldl_expand)
qed

lemma valid_order_mset:
  assumes "valid_order ord"
  shows "mset ord = mset ''trp''"
proof -
  have "card (set ord) = length ord" using assms by (simp add: valid_order_def)
  then have d: "distinct ord" by (rule card_distinct)
  have "set ord = set ''trp''" using assms by (auto simp add: valid_order_def)
  moreover have "distinct ''trp''" by simp
  ultimately show ?thesis using d by (metis set_eq_iff_mset_eq_distinct)
qed

lemma prod_list_valid_order:
  assumes "valid_order ord"
  shows "prod_list (map f ord) = f CHR ''t'' * f CHR ''r'' * (f CHR ''p'' :: nat)"
proof -
  have "prod_list (map f ord) = prod_mset (image_mset f (mset ord))"
    by (metis mset_map prod_mset_prod_list)
  also have "\<dots> = prod_mset (image_mset f (mset ''trp''))"
    using valid_order_mset [OF assms] by simp
  also have "\<dots> = f CHR ''t'' * f CHR ''r'' * f CHR ''p''"
    by (simp add: mult.assoc)
  finally show ?thesis .
qed

lemma map_snd_draw_loop: "map snd (draw_loop dp ti_sep seq idx ti) = seq"
  by (induction seq arbitrary: idx ti) simp_all

text \<open>
  C3. For a valid order string, at least one timing point and at least one repeat, the
  sequence built by \<^verbatim>\<open>on_paint\<close> has \<open>n_tis * n_repeats\<close> elements, twice as many when
  tag-control pairs are on; \<^verbatim>\<open>on_paint\<close> returns, and its drawing loop labels exactly
  these elements in this order.
\<close>

theorem paint_seq_length:
  assumes "valid_order (pv_order dp)" and "1 \<le> n_tis dp" and "1 \<le> n_repeats dp"
  shows "int (length (paint_seq dp)) = n_tis dp * n_repeats dp * (if pv_tc_pairs dp then 2 else 1)
       \<and> (\<exists>labels. on_paint dp = Inr labels \<and> map snd labels = paint_seq dp)"
proof -
  have t: "int (factor dp CHR ''t'') = n_tis dp"
    using assms(2) by (simp add: factor_def expand_def)
  have r: "int (factor dp CHR ''r'') = n_repeats dp"
    using assms(3) by (simp add: factor_def expand_def)
  have p: "int (factor dp CHR ''p'') = (if pv_tc_pairs dp then 2 else 1)"
    by (simp add: factor_def expand_def)
  have "length (paint_seq dp) = factor dp CHR ''t'' * factor dp CHR ''r'' * factor dp CHR ''p''"
    by (simp add: length_paint_seq prod_list_valid_order [OF assms(1)])
  then have "int (length (paint_seq dp)) =
      int (factor dp CHR ''t'') * int (factor dp CHR ''r'') * int (factor dp CHR ''p'')"
    by simp
  then have "int (length (paint_seq dp)) = n_tis dp * n_repeats dp * (if pv_tc_pairs dp then 2 else 1)"
    by (simp only: t r p)
  moreover have "\<exists>labels. on_paint dp = Inr labels \<and> map snd labels = paint_seq dp"
    using assms(2,3) by (simp add: on_paint_def Let_def map_snd_draw_loop)
  ultimately show ?thesis by (rule conjI)
qed

text \<open>
  The length at order trp, two timing points, three repeats and no pairs is 6.
\<close>

theorem paint_seq_length_witness:
  "valid_order ''trp'' \<and> int (length (paint_seq
      \<lparr>n_tis = 2, n_repeats = 3, pv_tc_pairs = False, pv_tagfirst = True, pv_order = ''trp''\<rparr>)) = 6"
proof -
  let ?dp = "\<lparr>n_tis = 2, n_repeats = 3, pv_tc_pairs = False, pv_tagfirst = True, pv_order = ''trp''\<rparr>"
  have v: "valid_order (pv_order ?dp)" by (auto simp add: valid_order_def)
  have a: "1 \<le> n_tis ?dp" by simp
  have b: "1 \<le> n_repeats ?dp" by simp
  show ?thesis using v paint_seq_length [OF v a b] by simp
qed

text \<open>
  C4. One timing point, two repeats, pairs on, tag first, order ptr: the sequence is
  tag, control, repeat of the tag, repeat of the control (markers 1, 2, 3, 4), and the
  drawing loop holds timing index 0 at every one of the four.
\<close>

theorem paint_seq_ptr_example:
  "paint_seq \<lparr>n_tis = 1, n_repeats = 2, pv_tc_pairs = True, pv_tagfirst = True, pv_order = ''ptr''\<rparr>
     = [1, 2, 3, 4]
   \<and> on_paint \<lparr>n_tis = 1, n_repeats = 2, pv_tc_pairs = True, pv_tagfirst = True, pv_order = ''ptr''\<rparr>
     = Inr [(0, 1), (0, 2), (0, 3), (0, 4)]"
  by (simp add: on_paint_def paint_seq_def expand_all_def expand_def)

text \<open>
  C10. With tag-control pairs off the sequence, and the labels drawn from it, are the
  same whatever the tag-first flag is (when \<^verbatim>\<open>on_paint\<close> raises, it raises for both):
  the flag is read only under \<^verbatim>\<open>tc_pairs\<close>.
\<close>

theorem paint_seq_ignores_tagfirst:
  "paint_seq (dp\<lparr>pv_tc_pairs := False, pv_tagfirst := a\<rparr>)
     = paint_seq (dp\<lparr>pv_tc_pairs := False, pv_tagfirst := b\<rparr>)
   \<and> on_paint (dp\<lparr>pv_tc_pairs := False, pv_tagfirst := a\<rparr>)
     = on_paint (dp\<lparr>pv_tc_pairs := False, pv_tagfirst := b\<rparr>)"
proof -
  let ?A = "dp\<lparr>pv_tc_pairs := False, pv_tagfirst := a\<rparr>"
  let ?B = "dp\<lparr>pv_tc_pairs := False, pv_tagfirst := b\<rparr>"
  have e: "expand ?A = expand ?B"
    by (intro ext) (simp add: expand_def)
  then have s: "paint_seq ?A = paint_seq ?B"
    by (simp add: paint_seq_def expand_all_def)
  have d: "draw_loop ?A k seq idx ti = draw_loop ?B k seq idx ti" for k seq idx ti
    by (induction seq arbitrary: idx ti) simp_all
  have "on_paint ?A = on_paint ?B"
    unfolding on_paint_def s by (simp add: Let_def d)
  with s show ?thesis by simp
qed

end
